theory Spec2Isabelle
  imports Main "HOL-Library.Sublist"
begin

section \<open>JavaScript values and built-ins used by the explorers\<close>

text \<open>
  The values that travel through the adapters: request arguments, response bodies and
  the results handed to callbacks. Numbers are the integer-valued ones (block counts,
  satoshi amounts, status codes); an object is its list of own properties, with unique
  keys, as \<^verbatim>\<open>JSON.parse\<close> produces it.
\<close>

datatype json =
    JUndefined
  | JNull
  | JBool bool
  | JNum int
  | JStr string
  | JArr "json list"
  | JObj "(string \<times> json) list"

text \<open>
  An argument that is either a plain value or an instance of a library class
  (\<^verbatim>\<open>Network\<close>, \<^verbatim>\<open>Address\<close>, \<^verbatim>\<open>Transaction\<close>).
\<close>

datatype 'o arg = Val json | Obj 'o

text \<open>The exceptions the code and its libraries raise.\<close>

datatype exn = InvalidArgument | SyntaxError | TypeError | LibError string

fun truthy :: "json \<Rightarrow> bool" where
  "truthy JUndefined = False"
| "truthy JNull = False"
| "truthy (JBool b) = b"
| "truthy (JNum n) = (n \<noteq> 0)"
| "truthy (JStr s) = (s \<noteq> [])"
| "truthy (JArr xs) = True"
| "truthy (JObj kvs) = True"

fun truthy_arg :: "'o arg \<Rightarrow> bool" where
  "truthy_arg (Val v) = truthy v"
| "truthy_arg (Obj x) = True"

text \<open>
  Property read \<^verbatim>\<open>v.k\<close>, for the property names the adapters read (none of them is
  \<^verbatim>\<open>length\<close>, an index or a prototype member): a TypeError on
  \<^verbatim>\<open>undefined\<close> and \<^verbatim>\<open>null\<close>, the own property of an object,
  \<^verbatim>\<open>undefined\<close> otherwise.
\<close>

fun getprop :: "json \<Rightarrow> string \<Rightarrow> exn + json" where
  "getprop JUndefined k = Inl TypeError"
| "getprop JNull k = Inl TypeError"
| "getprop (JObj kvs) k = Inr (case map_of kvs k of Some v \<Rightarrow> v | None \<Rightarrow> JUndefined)"
| "getprop v k = Inr JUndefined"

subsection \<open>Number to string, and parseInt\<close>

definition digit_char :: "nat \<Rightarrow> char" where
  "digit_char d = ''0123456789'' ! (d mod 10)"

fun dec :: "nat \<Rightarrow> string" where
  "dec n = (if n < 10 then [digit_char n] else dec (n div 10) @ [digit_char (n mod 10)])"

fun ndigits :: "nat \<Rightarrow> nat" where
  "ndigits n = (if n < 10 then 1 else 1 + ndigits (n div 10))"

fun bitlen :: "nat \<Rightarrow> nat" where
  "bitlen n = (if n = 0 then 0 else 1 + bitlen (n div 2))"

text \<open>
  \<open>fl n\<close> is the IEEE 754 double nearest to the natural number \<open>n\<close> (ties to even),
  for \<open>n\<close> below \<open>2 ^ 1024\<close>: a JavaScript number holds 53 significant bits.
\<close>

definition fl :: "nat \<Rightarrow> nat" where
  "fl n =
     (if n < 2 ^ 53 then n
      else let sh = bitlen n - 53;
               q = n div 2 ^ sh;
               r = n mod 2 ^ sh;
               h = 2 ^ (sh - 1)
           in (if h < r \<or> (r = h \<and> odd q) then q + 1 else q) * 2 ^ sh)"

text \<open>
  \<^verbatim>\<open>Number::toString\<close> prints the shortest decimal that reads back as the same
  double. \<open>candidates n k\<close> are the two decimals of \<open>k\<close> significant digits around
  \<open>n\<close>, the nearer first; \<open>shortest n\<close> is the first one, for 1 to 17 digits, that
  rounds to \<open>n\<close> (17 digits always suffice for a double).
\<close>

definition candidates :: "nat \<Rightarrow> nat \<Rightarrow> nat list" where
  "candidates n k =
     (let d = ndigits n in
      if d \<le> k then [n]
      else let scale = 10 ^ (d - k);
               lo = (n div scale) * scale;
               hi = lo + scale
           in (if n - lo \<le> hi - n then [lo, hi] else [hi, lo]))"

definition shortest :: "nat \<Rightarrow> nat" where
  "shortest n =
     (case List.find (\<lambda>v. fl v = n)
             (concat (map (candidates n) [1, 2, 3, 4, 5, 6, 7, 8, 9, 10, 11, 12, 13, 14, 15, 16, 17]))
      of Some v \<Rightarrow> v | None \<Rightarrow> n)"

fun strip_zeros :: "string \<Rightarrow> string" where
  "strip_zeros s = rev (dropWhile (\<lambda>c. c = CHR ''0'') (rev s))"

text \<open>
  A value below \<open>10 ^ 21\<close> prints as its digits; from \<open>10 ^ 21\<close> on the exponent form
  is used: \<^verbatim>\<open>String(1e21)\<close> is \<^verbatim>\<open>"1e+21"\<close>.
\<close>

definition nat_to_string :: "nat \<Rightarrow> string" where
  "nat_to_string n =
     (let v = shortest n in
      if v < 10 ^ 21 then dec v
      else let ds = strip_zeros (dec v) in
           take 1 ds @ (if length ds \<le> 1 then [] else CHR ''.'' # drop 1 ds)
             @ ''e+'' @ dec (ndigits v - 1))"

definition number_to_string :: "int \<Rightarrow> string" where
  "number_to_string i = (if i < 0 then CHR ''-'' # nat_to_string (nat (- i)) else nat_to_string (nat i))"

fun intercalate :: "string \<Rightarrow> string list \<Rightarrow> string" where
  "intercalate sep [] = []"
| "intercalate sep [x] = x"
| "intercalate sep (x # y # ys) = x @ sep @ intercalate sep (y # ys)"

text \<open>\<^verbatim>\<open>ToString\<close>: what string concatenation and \<^verbatim>\<open>parseInt\<close> apply to a value.\<close>

fun js_to_string :: "json \<Rightarrow> string" where
  "js_to_string JUndefined = ''undefined''"
| "js_to_string JNull = ''null''"
| "js_to_string (JBool b) = (if b then ''true'' else ''false'')"
| "js_to_string (JNum i) = number_to_string i"
| "js_to_string (JStr s) = s"
| "js_to_string (JArr xs) =
     intercalate '',''
       (map (\<lambda>x. if x = JUndefined \<or> x = JNull then [] else js_to_string x) xs)"
| "js_to_string (JObj kvs) = ''[object Object]''"

text \<open>
  The white space \<^verbatim>\<open>parseInt\<close> skips, among the code units a \<open>char\<close> can hold:
  tab, line feed, vertical tab, form feed, carriage return, space and no-break space.
\<close>

definition is_space :: "char \<Rightarrow> bool" where
  "is_space c = (c \<in> set [CHR 0x09, CHR 0x0A, CHR 0x0B, CHR 0x0C, CHR 0x0D, CHR 0x20, CHR 0xA0])"

definition is_digit :: "char \<Rightarrow> bool" where
  "is_digit c = (c \<in> set ''0123456789'')"

definition digit_val :: "char \<Rightarrow> nat" where
  "digit_val c = of_char c - 48"

definition digits_val :: "string \<Rightarrow> nat" where
  "digits_val s = foldl (\<lambda>a c. 10 * a + digit_val c) 0 s"

text \<open>
  \<^verbatim>\<open>parseInt(s, 10)\<close>: leading white space is skipped, a sign is read, then the
  longest run of decimal digits; no digit gives \<^verbatim>\<open>NaN\<close> (\<open>None\<close>). The result
  is a double.
\<close>

definition parseInt_string :: "string \<Rightarrow> int option" where
  "parseInt_string s =
     (let t = dropWhile is_space s;
          neg = (t \<noteq> [] \<and> hd t = CHR ''-'');
          u = (if t \<noteq> [] \<and> (hd t = CHR ''-'' \<or> hd t = CHR ''+'') then tl t else t);
          ds = takeWhile is_digit u
      in if ds = [] then None
         else Some (if neg then - int (fl (digits_val ds)) else int (fl (digits_val ds))))"

definition parseInt :: "json \<Rightarrow> int option" where
  "parseInt v = parseInt_string (js_to_string v)"

text \<open>\<^verbatim>\<open>s.indexOf(pat)\<close> on strings, and on arrays with their elements.\<close>

fun indexOf_from :: "'a list \<Rightarrow> 'a list \<Rightarrow> nat \<Rightarrow> int" where
  "indexOf_from [] pat i = (if pat = [] then int i else - 1)"
| "indexOf_from (x # xs) pat i = (if prefix pat (x # xs) then int i else indexOf_from xs pat (Suc i))"

text \<open>
  \<^verbatim>\<open>v.indexOf(pat)\<close> for a value \<open>v\<close> of a response: strings and arrays have the
  method, on anything else the call is a TypeError.
\<close>

fun indexOf :: "json \<Rightarrow> string \<Rightarrow> exn + int" where
  "indexOf (JStr s) pat = Inr (indexOf_from s pat 0)"
| "indexOf (JArr xs) pat = Inr (indexOf_from xs [JStr pat] 0)"
| "indexOf v pat = Inl TypeError"

declare dec.simps [simp del] ndigits.simps [simp del] bitlen.simps [simp del]

fun mapM :: "('a \<Rightarrow> exn + 'b) \<Rightarrow> 'a list \<Rightarrow> exn + 'b list" where
  "mapM f [] = Inr []"
| "mapM f (x # xs) =
     (case f x of Inl e \<Rightarrow> Inl e
      | Inr y \<Rightarrow> (case mapM f xs of Inl e \<Rightarrow> Inl e | Inr ys \<Rightarrow> Inr (y # ys)))"

section \<open>The collaborators: HTTP transport and libraries\<close>

text \<open>
  The \<^verbatim>\<open>request\<close> module is the transport. A call hands the callback either a
  transport error, or a response with its status code and body.
\<close>

datatype meth = GET | POST

record request =
  meth :: meth
  url :: string
  headers :: "(string \<times> string) list"
  json_opt :: json

datatype reply = NetError string | Reply nat json

type_synonym http = "request \<Rightarrow> reply"

text \<open>
  What a callback receives as its first argument: \<^verbatim>\<open>null\<close>, the transport's error,
  a plain value (a response body), the response object, the error built by
  \<^verbatim>\<open>errors.AlreadyBroadcastedError\<close> with its message, or a caught exception.
\<close>

datatype errval =
    Null
  | NetErr string
  | Value json
  | Response nat json
  | AlreadyBroadcastedError json
  | Exception exn

fun truthy_err :: "errval \<Rightarrow> bool" where
  "truthy_err Null = False"
| "truthy_err (Value v) = truthy v"
| "truthy_err e = True"

text \<open>
  The observable end of an operation: the callback is invoked with an error argument and
  possibly a result, or an exception escapes (synchronously from the call, or from the
  response handler, where nothing catches it), or the callback is never invoked.
\<close>

datatype 'v outcome = Callback errval "'v option" | Thrown exn | NoCallback

text \<open>
  \<^verbatim>\<open>bitcore.Networks\<close>: the registry lookup \<^verbatim>\<open>Networks.get\<close> (by network object,
  name or alias; \<open>None\<close> is \<^verbatim>\<open>undefined\<close>), the two distinguished networks and
  a network's \<^verbatim>\<open>toString\<close>.
\<close>

record 'n networks =
  Networks_get :: "'n arg \<Rightarrow> 'n option"
  livenet :: 'n
  defaultNetwork :: 'n
  network_toString :: "'n \<Rightarrow> string"

text \<open>
  The object \<^verbatim>\<open>blockcypherToBitcoreOutputFormat\<close> builds, and the two shapes
  \<^verbatim>\<open>UnspentOutput\<close> is applied to: that object, or a raw element of a response.
\<close>

record 'a output_format =
  txId :: json
  outputIndex :: json
  satoshis :: json
  script :: json
  address :: 'a

datatype 'a utxo_arg = Formatted "'a output_format" | Plain json

text \<open>
  The codec side of \<^verbatim>\<open>bitcore-lib\<close>, \<^verbatim>\<open>JSON.parse\<close> and the elements
  \<^verbatim>\<open>_.map\<close> visits in a collection. A constructor that throws returns \<open>Inl\<close>;
  \<open>serialize t unsafe\<close> is \<^verbatim>\<open>t.serialize(unsafe)\<close>.
\<close>

record ('a, 't, 'u) bitcore =
  new_Address :: "'a arg \<Rightarrow> exn + 'a"
  Address_toString :: "'a \<Rightarrow> string"
  Address_fromScript :: "json \<Rightarrow> exn + 'a"
  isHexa :: "'t arg \<Rightarrow> bool"
  serialize :: "'t \<Rightarrow> bool \<Rightarrow> exn + string"
  new_Transaction :: "json \<Rightarrow> exn + 't"
  UnspentOutput :: "'a utxo_arg \<Rightarrow> exn + 'u"
  JSON_parse :: "string \<Rightarrow> json option"
  map_elems :: "json \<Rightarrow> json list"

fun instanceOf :: "'o arg \<Rightarrow> bool" where
  "instanceOf (Obj x) = True"
| "instanceOf (Val v) = False"

fun arg_to_string :: "('o \<Rightarrow> string) \<Rightarrow> 'o arg \<Rightarrow> string" where
  "arg_to_string f (Val v) = js_to_string v"
| "arg_to_string f (Obj x) = f x"

fun isNumber :: "json \<Rightarrow> bool" where
  "isNumber (JNum n) = True"
| "isNumber v = False"


text \<open>\<^verbatim>\<open>v >= 0\<close> for a value that passed \<^verbatim>\<open>_.isNumber\<close>.\<close>

fun ge0 :: "json \<Rightarrow> bool" where
  "ge0 (JNum n) = (0 \<le> n)"
| "ge0 v = False"

text \<open>\<^verbatim>\<open>w < k\<close> for a parsed number: every comparison with \<^verbatim>\<open>NaN\<close> is false.\<close>

fun num_less :: "int option \<Rightarrow> int \<Rightarrow> bool" where
  "num_less None k = False"
| "num_less (Some n) k = (n < k)"

fun num_to_string :: "int option \<Rightarrow> string" where
  "num_to_string None = ''NaN''"
| "num_to_string (Some n) = number_to_string n"

section \<open>models/feeestimation.js\<close>

record ('w, 'f) FeeEstimation =
  withinBlocks :: 'w
  feePerKb :: 'f

record tiers =
  high :: "(int, int option) FeeEstimation"
  medium :: "(int, int option) FeeEstimation"
  low :: "(int, int option) FeeEstimation"

text \<open>
  \<^verbatim>\<open>new FeeEstimation(param)\<close>: both \<^verbatim>\<open>checkArgument(_.isNumber(...))\<close> pass on
  the numbers it is given here (\<^verbatim>\<open>_.isNumber(NaN)\<close> is true).
\<close>

definition new_FeeEstimation :: "int \<Rightarrow> int option \<Rightarrow> (int, int option) FeeEstimation" where
  "new_FeeEstimation w f = \<lparr> withinBlocks = w, feePerKb = f \<rparr>"

definition FeeEstimation_fromBlockcypher :: "('a, 't, 'u) bitcore \<Rightarrow> json \<Rightarrow> exn + tiers" where
  "FeeEstimation_fromBlockcypher L param0 =
     (case (case param0 of
              JStr s \<Rightarrow> (case JSON_parse L s of None \<Rightarrow> Inl SyntaxError | Some v \<Rightarrow> Inr v)
            | _ \<Rightarrow> Inr param0) of
        Inl x \<Rightarrow> Inl x
      | Inr param \<Rightarrow>
         (case getprop param ''high_fee_per_kb'' of Inl x \<Rightarrow> Inl x | Inr h \<Rightarrow>
          (case getprop param ''medium_fee_per_kb'' of Inl x \<Rightarrow> Inl x | Inr m \<Rightarrow>
           (case getprop param ''low_fee_per_kb'' of Inl x \<Rightarrow> Inl x | Inr l \<Rightarrow>
              Inr \<lparr> high = new_FeeEstimation 0 (parseInt h),
                    medium = new_FeeEstimation 3 (parseInt m),
                    low = new_FeeEstimation 7 (parseInt l) \<rparr>))))"

section \<open>lib/blockcypher.js\<close>

record 'n blockcypher =
  bc_token :: json
  bc_url :: "'n arg"
  bc_network :: 'n

definition OPTS :: string where
  "OPTS = ''?unspentOnly=true&includeScript=true''"

text \<open>The constructor after its first \<^verbatim>\<open>if\<close>.\<close>

definition Blockcypher_init :: "'n networks \<Rightarrow> json \<Rightarrow> 'n arg \<Rightarrow> 'n arg \<Rightarrow> 'n blockcypher" where
  "Blockcypher_init N tok url0 network0 =
     (let (url1, network1) =
            (case Networks_get N url0 of
               Some n \<Rightarrow>
                 (Val (JStr (''https://api.blockcypher.com/v1/btc/'' @
                              (if n = livenet N then ''main'' else ''test3''))),
                  Obj n)
             | None \<Rightarrow> (url0, network0))
      in \<lparr> bc_token = tok, bc_url = url1,
           bc_network = (case Networks_get N network1 of Some n \<Rightarrow> n | None \<Rightarrow> defaultNetwork N) \<rparr>)"

text \<open>
  \<^verbatim>\<open>new Blockcypher(token, url, network)\<close>. With neither a url nor a network the
  constructor calls itself on the default network, a truthy object, so that call runs
  the rest of the body.
\<close>

definition Blockcypher :: "'n networks \<Rightarrow> json \<Rightarrow> 'n arg \<Rightarrow> 'n arg \<Rightarrow> 'n blockcypher" where
  "Blockcypher N tok url0 network0 =
     (if \<not> truthy_arg url0 \<and> \<not> truthy_arg network0
      then Blockcypher_init N tok (Obj (defaultNetwork N)) (Val JUndefined)
      else Blockcypher_init N tok url0 network0)"

definition Blockcypher_requestPost ::
  "'n networks \<Rightarrow> http \<Rightarrow> 'n blockcypher \<Rightarrow> string \<Rightarrow> json \<Rightarrow> request \<times> reply" where
  "Blockcypher_requestPost N h self path data =
     (let req = \<lparr> meth = POST,
                   url = arg_to_string (network_toString N) (bc_url self) @ path,
                   headers = [(''Content-Type'', ''application/json'')],
                   json_opt = data \<rparr>
      in (req, h req))"

definition Blockcypher_requestGet ::
  "'n networks \<Rightarrow> http \<Rightarrow> 'n blockcypher \<Rightarrow> string \<Rightarrow> request \<times> reply" where
  "Blockcypher_requestGet N h self path =
     (let req = \<lparr> meth = GET,
                   url = arg_to_string (network_toString N) (bc_url self) @ path,
                   headers = [(''Content-Type'', ''application/json'')],
                   json_opt = JUndefined \<rparr>
      in (req, h req))"

subsection \<open>getUnspentUtxos\<close>

fun getMaybeArray :: "json \<Rightarrow> json list" where
  "getMaybeArray (JArr xs) = xs"
| "getMaybeArray v = []"

definition blockcypherToBitcoreOutputFormat ::
  "('a, 't, 'u) bitcore \<Rightarrow> json \<Rightarrow> exn + 'a output_format" where
  "blockcypherToBitcoreOutputFormat L output =
     (case getprop output ''tx_hash'' of Inl x \<Rightarrow> Inl x | Inr h \<Rightarrow>
      (case getprop output ''tx_output_n'' of Inl x \<Rightarrow> Inl x | Inr n \<Rightarrow>
       (case getprop output ''value'' of Inl x \<Rightarrow> Inl x | Inr v \<Rightarrow>
        (case getprop output ''script'' of Inl x \<Rightarrow> Inl x | Inr s \<Rightarrow>
         (case Address_fromScript L s of Inl x \<Rightarrow> Inl x | Inr a \<Rightarrow>
            Inr \<lparr> txId = h, outputIndex = n, satoshis = v, script = s, address = a \<rparr>)))))"

definition processAddressInfoIntoOutputs :: "('a, 't, 'u) bitcore \<Rightarrow> json \<Rightarrow> exn + 'u list" where
  "processAddressInfoIntoOutputs L rawInfo0 =
     (case JSON_parse L (js_to_string rawInfo0) of
        None \<Rightarrow> Inl SyntaxError
      | Some rawInfo \<Rightarrow>
         (case getprop rawInfo ''txrefs'' of Inl x \<Rightarrow> Inl x | Inr t \<Rightarrow>
          (case getprop rawInfo ''unconfirmed_txrefs'' of Inl x \<Rightarrow> Inl x | Inr u \<Rightarrow>
           (case mapM (blockcypherToBitcoreOutputFormat L) (getMaybeArray t @ getMaybeArray u) of
              Inl x \<Rightarrow> Inl x
            | Inr fs \<Rightarrow> mapM (\<lambda>f. UnspentOutput L (Formatted f)) fs))))"

definition Blockcypher_getAddress_request ::
  "'n networks \<Rightarrow> ('a, 't, 'u) bitcore \<Rightarrow> http \<Rightarrow> 'n blockcypher \<Rightarrow> 'a \<Rightarrow> request \<times> reply" where
  "Blockcypher_getAddress_request N L h self a =
     (let query = OPTS @ (if truthy (bc_token self) then ''&token='' @ js_to_string (bc_token self) else [])
      in Blockcypher_requestGet N h self (''/addrs/'' @ Address_toString L a @ query))"

text \<open>The response handler of \<^verbatim>\<open>_getAddress\<close>: what it passes to \<^verbatim>\<open>cb\<close>.\<close>

definition Blockcypher_getAddress_response :: "('a, 't, 'u) bitcore \<Rightarrow> reply \<Rightarrow> 'u list outcome" where
  "Blockcypher_getAddress_response L r =
     (case r of
        NetError e \<Rightarrow> Callback (NetErr e) None
      | Reply st body \<Rightarrow>
          if st \<noteq> 200 then Callback (Value body) None
          else (case processAddressInfoIntoOutputs L body of
                  Inl x \<Rightarrow> Thrown x
                | Inr outs \<Rightarrow> Callback Null (Some outs)))"

text \<open>
  \<^verbatim>\<open>async.map\<close>. Every iteratee is started at once, so all requests are issued;
  the responses arrive in some order, given as the list \<open>order\<close> of positions. Each
  handler stores its value at its position (\<open>None\<close> is \<^verbatim>\<open>undefined\<close>) and reports
  its error argument: a truthy one ends the map with that error, and once every position
  has reported (\<open>seen\<close> lists those that have), the map ends without error; an empty list
  ends it at once. An exception escaping a handler is not caught. The result is the first
  of these events; while a position has not reported, the map has not ended.
\<close>

datatype 'v collected = Collected errval "'v option list" | Crashed exn | Waiting

definition all_reported :: "nat \<Rightarrow> nat list \<Rightarrow> bool" where
  "all_reported n seen = list_all (\<lambda>i. i \<in> set seen) [0 ..< n]"

fun async_map :: "'v outcome list \<Rightarrow> nat list \<Rightarrow> nat list \<Rightarrow> 'v option list \<Rightarrow> 'v collected" where
  "async_map outs [] seen results =
     (if all_reported (length outs) seen then Collected Null results else Waiting)"
| "async_map outs (i # order) seen results =
     (if all_reported (length outs) seen then Collected Null results
      else if length outs \<le> i then async_map outs order seen results
      else (case outs ! i of
              Thrown x \<Rightarrow> Crashed x
            | NoCallback \<Rightarrow> async_map outs order seen results
            | Callback e v \<Rightarrow>
                if truthy_err e then Collected e (results[i := v])
                else async_map outs order (i # seen) (results[i := v])))"

text \<open>
  For a handler's call of \<^verbatim>\<open>cb\<close>: whether \<^verbatim>\<open>async.map\<close> sees no error in
  it, and the value it stores.
\<close>

fun reports_no_error :: "'v outcome \<Rightarrow> bool" where
  "reports_no_error (Callback e v) = (\<not> truthy_err e)"
| "reports_no_error (Thrown x) = False"
| "reports_no_error NoCallback = False"

fun stored_value :: "'v outcome \<Rightarrow> 'v option" where
  "stored_value (Callback e v) = v"
| "stored_value (Thrown x) = None"
| "stored_value NoCallback = None"

text \<open>An element of the flattened result: an output, or \<^verbatim>\<open>undefined\<close>.\<close>

datatype 'u item = Item 'u | Undefined

text \<open>\<^verbatim>\<open>_.flatten\<close>: arrays are spliced in, any other element is kept.\<close>

definition flatten :: "'u list option list \<Rightarrow> 'u item list" where
  "flatten results = concat (map (\<lambda>r. case r of None \<Rightarrow> [Undefined] | Some xs \<Rightarrow> map Item xs) results)"

text \<open>
  The \<^verbatim>\<open>addresses\<close> argument: one address, or an array of them.
  \<^verbatim>\<open>if (!_.isArray(addresses)) addresses = [addresses]\<close>; a single value that is
  itself an array is that array.
\<close>

datatype 'a addresses = Single "'a arg" | Many "'a arg list"

fun as_array :: "'a addresses \<Rightarrow> 'a arg list" where
  "as_array (Many xs) = xs"
| "as_array (Single (Val (JArr xs))) = map Val xs"
| "as_array (Single a) = [a]"

definition Blockcypher_getUnspentUtxos ::
  "'n networks \<Rightarrow> ('a, 't, 'u) bitcore \<Rightarrow> http \<Rightarrow> nat list \<Rightarrow> 'n blockcypher \<Rightarrow> 'a addresses
     \<Rightarrow> 'u item list outcome \<times> request list" where
  "Blockcypher_getUnspentUtxos N L h order self addresses0 =
     (case mapM (new_Address L) (as_array addresses0) of
        Inl x \<Rightarrow> (Thrown x, [])
      | Inr addresses \<Rightarrow>
          let calls = map (Blockcypher_getAddress_request N L h self) addresses;
              outs = map (\<lambda>c. Blockcypher_getAddress_response L (snd c)) calls
          in ((case async_map outs order [] (replicate (length addresses) None) of
                 Crashed x \<Rightarrow> Thrown x
               | Waiting \<Rightarrow> NoCallback
               | Collected err results \<Rightarrow>
                   if truthy_err err then Callback err None
                   else Callback Null (Some (flatten results))),
              map fst calls))"

subsection \<open>broadcast\<close>

definition Blockcypher_broadcast_response :: "reply \<Rightarrow> json outcome" where
  "Blockcypher_broadcast_response r =
     (case r of
        NetError e \<Rightarrow> Callback (NetErr e) None
      | Reply st body \<Rightarrow>
          if st \<noteq> 201 then
            (case getprop body ''error'' of Inl x \<Rightarrow> Thrown x | Inr msg \<Rightarrow>
             (case indexOf msg ''already exists'' of Inl x \<Rightarrow> Thrown x | Inr i \<Rightarrow>
                if - 1 < i then Callback (AlreadyBroadcastedError msg) None
                else Callback (Value body) None))
          else if truthy body then
            (case getprop body ''tx'' of Inl x \<Rightarrow> Thrown x | Inr tx \<Rightarrow>
             (case getprop tx ''hash'' of Inl x \<Rightarrow> Thrown x | Inr hash \<Rightarrow>
                Callback Null (Some hash)))
          else Callback Null (Some JNull))"

definition Blockcypher_broadcast ::
  "'n networks \<Rightarrow> ('a, 't, 'u) bitcore \<Rightarrow> http \<Rightarrow> 'n blockcypher \<Rightarrow> 't arg
     \<Rightarrow> json outcome \<times> request list" where
  "Blockcypher_broadcast N L h self transaction0 =
     (if \<not> (isHexa L transaction0 \<or> instanceOf transaction0) then (Thrown InvalidArgument, [])
      else (case (case transaction0 of
                    Obj t \<Rightarrow> (case serialize L t True of Inl x \<Rightarrow> Inl x | Inr s \<Rightarrow> Inr (JStr s))
                  | Val v \<Rightarrow> Inr v) of
              Inl x \<Rightarrow> (Thrown x, [])
            | Inr transaction \<Rightarrow>
                let query = (if truthy (bc_token self) then ''?token='' @ js_to_string (bc_token self) else []);
                    c = Blockcypher_requestPost N h self (''/txs/push'' @ query) (JObj [(''tx'', transaction)])
                in (Blockcypher_broadcast_response (snd c), [fst c])))"

subsection \<open>feeEstimation\<close>

definition select_tier :: "int option \<Rightarrow> tiers \<Rightarrow> (int, int option) FeeEstimation" where
  "select_tier w estimation =
     (if num_less w 3 then high estimation
      else if num_less w 7 then medium estimation
      else low estimation)"

definition Blockcypher_feeEstimation_response ::
  "('a, 't, 'u) bitcore \<Rightarrow> int option \<Rightarrow> reply \<Rightarrow> (int, int option) FeeEstimation outcome" where
  "Blockcypher_feeEstimation_response L w r =
     (case r of
        NetError e \<Rightarrow> Callback (NetErr e) None
      | Reply st body \<Rightarrow>
          if st \<noteq> 200 then Callback (Value body) None
          else (case FeeEstimation_fromBlockcypher L body of
                  Inl x \<Rightarrow> if x = SyntaxError then Callback (Exception x) None else Thrown x
                | Inr estimation \<Rightarrow> Callback Null (Some (select_tier w estimation))))"

definition Blockcypher_feeEstimation ::
  "'n networks \<Rightarrow> ('a, 't, 'u) bitcore \<Rightarrow> http \<Rightarrow> 'n blockcypher \<Rightarrow> json
     \<Rightarrow> (int, int option) FeeEstimation outcome \<times> request list" where
  "Blockcypher_feeEstimation N L h self withinBlocks0 =
     (if \<not> (isNumber withinBlocks0 \<and> ge0 withinBlocks0) then (Thrown InvalidArgument, [])
      else let w = parseInt withinBlocks0;
               query = (if truthy (bc_token self) then ''?token='' @ js_to_string (bc_token self) else []);
               c = Blockcypher_requestGet N h self (''/'' @ query)
           in (Blockcypher_feeEstimation_response L w (snd c), [fst c]))"

section \<open>lib/smoogs.js\<close>

record 'n smoogs =
  sm_url :: "'n arg"
  sm_network :: 'n

definition Smoogs_init :: "'n networks \<Rightarrow> 'n arg \<Rightarrow> 'n arg \<Rightarrow> 'n smoogs" where
  "Smoogs_init N url0 network0 =
     (let (url1, network1) =
            (case Networks_get N url0 of
               Some n \<Rightarrow>
                 (Val (JStr (''https://smoogs.io/api/'' @
                              (if n = livenet N then ''v1'' else ''testing'') @ ''/blockchain'')),
                  Obj n)
             | None \<Rightarrow> (url0, network0))
      in \<lparr> sm_url = url1,
           sm_network = (case Networks_get N network1 of Some n \<Rightarrow> n | None \<Rightarrow> defaultNetwork N) \<rparr>)"

definition Smoogs :: "'n networks \<Rightarrow> 'n arg \<Rightarrow> 'n arg \<Rightarrow> 'n smoogs" where
  "Smoogs N url0 network0 =
     (if \<not> truthy_arg url0 \<and> \<not> truthy_arg network0
      then Smoogs_init N (Obj (defaultNetwork N)) (Val JUndefined)
      else Smoogs_init N url0 network0)"

definition Smoogs_requestPost ::
  "'n networks \<Rightarrow> http \<Rightarrow> 'n smoogs \<Rightarrow> string \<Rightarrow> json \<Rightarrow> request \<times> reply" where
  "Smoogs_requestPost N h self path data =
     (let req = \<lparr> meth = POST,
                   url = arg_to_string (network_toString N) (sm_url self) @ path,
                   headers = [(''Content-Type'', ''application/json'')],
                   json_opt = data \<rparr>
      in (req, h req))"

definition Smoogs_requestGet ::
  "'n networks \<Rightarrow> http \<Rightarrow> 'n smoogs \<Rightarrow> string \<Rightarrow> request \<times> reply" where
  "Smoogs_requestGet N h self path =
     (let req = \<lparr> meth = GET,
                   url = arg_to_string (network_toString N) (sm_url self) @ path,
                   headers = [],
                   json_opt = JBool True \<rparr>
      in (req, h req))"

subsection \<open>getTransaction\<close>



subsection \<open>getUnspentUtxos\<close>

text \<open>
  The result handed on: the array of outputs, or, when mapping threw something other
  than InvalidArgument, the response body as it came.
\<close>

datatype 'u unspent = Outputs "'u list" | Unmapped json

definition Smoogs_getUnspentUtxos_response :: "('a, 't, 'u) bitcore \<Rightarrow> reply \<Rightarrow> 'u unspent outcome" where
  "Smoogs_getUnspentUtxos_response L r =
     (case r of
        NetError e \<Rightarrow> Callback (NetErr e) None
      | Reply st unspent \<Rightarrow>
          if st \<noteq> 200 then Callback (Response st unspent) None
          else (case mapM (\<lambda>x. UnspentOutput L (Plain x)) (map_elems L unspent) of
                  Inr us \<Rightarrow> Callback Null (Some (Outputs us))
                | Inl ex \<Rightarrow>
                    if ex = InvalidArgument then Callback (Exception ex) None
                    else Callback Null (Some (Unmapped unspent))))"

definition Smoogs_getUnspentUtxos ::
  "'n networks \<Rightarrow> ('a, 't, 'u) bitcore \<Rightarrow> http \<Rightarrow> 'n smoogs \<Rightarrow> 'a addresses
     \<Rightarrow> 'u unspent outcome \<times> request list" where
  "Smoogs_getUnspentUtxos N L h self addresses0 =
     (case mapM (new_Address L) (as_array addresses0) of
        Inl x \<Rightarrow> (Thrown x, [])
      | Inr addresses \<Rightarrow>
          let c = Smoogs_requestGet N h self
                    (''/utxos?addresses='' @ intercalate '','' (map (Address_toString L) addresses))
          in (Smoogs_getUnspentUtxos_response L (snd c), [fst c]))"

subsection \<open>broadcast\<close>

definition Smoogs_broadcast_response :: "reply \<Rightarrow> json outcome" where
  "Smoogs_broadcast_response r =
     (case r of
        NetError e \<Rightarrow> Callback (NetErr e) None
      | Reply st body \<Rightarrow>
          if st \<noteq> 200 then Callback (Value body) None
          else if truthy body then
            (case getprop body ''txid'' of Inl x \<Rightarrow> Thrown x | Inr txid \<Rightarrow> Callback Null (Some txid))
          else Callback Null (Some JNull))"

definition Smoogs_broadcast ::
  "'n networks \<Rightarrow> ('a, 't, 'u) bitcore \<Rightarrow> http \<Rightarrow> 'n smoogs \<Rightarrow> 't arg
     \<Rightarrow> json outcome \<times> request list" where
  "Smoogs_broadcast N L h self transaction0 =
     (if \<not> (isHexa L transaction0 \<or> instanceOf transaction0) then (Thrown InvalidArgument, [])
      else (case (case transaction0 of
                    Obj t \<Rightarrow> (case serialize L t False of Inl x \<Rightarrow> Inl x | Inr s \<Rightarrow> Inr (JStr s))
                  | Val v \<Rightarrow> Inr v) of
              Inl x \<Rightarrow> (Thrown x, [])
            | Inr transaction \<Rightarrow>
                let c = Smoogs_requestPost N h self ''/broadcast'' (JObj [(''rawtx'', transaction)])
                in (Smoogs_broadcast_response (snd c), [fst c])))"

subsection \<open>feeEstimation\<close>

text \<open>
  In the failure branch the handler passes \<^verbatim>\<open>err || feePerKb\<close>; \<^verbatim>\<open>feePerKb\<close> is
  declared by a \<^verbatim>\<open>var\<close> further down, so it is \<^verbatim>\<open>undefined\<close> there.
\<close>

definition Smoogs_feeEstimation_response ::
  "int option \<Rightarrow> reply \<Rightarrow> (int option, json) FeeEstimation outcome" where
  "Smoogs_feeEstimation_response w r =
     (case r of
        NetError e \<Rightarrow> Callback (NetErr e) None
      | Reply st body \<Rightarrow>
          if st \<noteq> 200 then Callback (Value JUndefined) None
          else (case getprop body ''feePerKb'' of
                  Inl x \<Rightarrow> Thrown x
                | Inr f \<Rightarrow> Callback Null (Some \<lparr> withinBlocks = w, feePerKb = f \<rparr>)))"

definition Smoogs_feeEstimation ::
  "'n networks \<Rightarrow> ('a, 't, 'u) bitcore \<Rightarrow> http \<Rightarrow> 'n smoogs \<Rightarrow> json
     \<Rightarrow> (int option, json) FeeEstimation outcome \<times> request list" where
  "Smoogs_feeEstimation N L h self withinBlocks0 =
     (if \<not> (isNumber withinBlocks0 \<and> ge0 withinBlocks0) then (Thrown InvalidArgument, [])
      else let w = parseInt withinBlocks0;
               c = Smoogs_requestGet N h self (''/fee/'' @ num_to_string w)
           in (Smoogs_feeEstimation_response w (snd c), [fst c]))"

section \<open>Example collaborators\<close>

text \<open>
  Stand-ins for the libraries and the provider, used where a statement is evaluated on
  concrete data: a registry with the two networks \<^verbatim>\<open>bitcore-lib\<close> ships, and a codec
  that knows the addresses, the script and the response bodies of the examples and rejects
  every other text. An address is its network and its text, a transaction is its hex text.
\<close>

datatype net = Livenet | Testnet

type_synonym addr = "net \<times> string"

definition example_networks :: "net networks" where
  "example_networks =
     \<lparr> Networks_get = (\<lambda>x. case x of
          Obj n \<Rightarrow> Some n
        | Val v \<Rightarrow>
            if v = JStr ''livenet'' \<or> v = JStr ''mainnet'' then Some Livenet
            else if v = JStr ''testnet'' then Some Testnet
            else None),
       livenet = Livenet,
       defaultNetwork = Livenet,
       network_toString = (\<lambda>n. case n of Livenet \<Rightarrow> ''livenet'' | Testnet \<Rightarrow> ''testnet'') \<rparr>"

definition is_hex_string :: "string \<Rightarrow> bool" where
  "is_hex_string s = (s \<noteq> [] \<and> list_all (\<lambda>c. c \<in> set ''0123456789abcdefABCDEF'') s)"

text \<open>
  Two livenet addresses, one testnet address, and the pay-to-public-key-hash script that
  pays \<open>address_A\<close>.
\<close>

definition address_A :: string where
  "address_A = ''1A1zP1eP5QGefi2DMPTfTL5SLmv7DivfNa''"

definition address_B :: string where
  "address_B = ''1BvBMSEYstWetqTFn5Au4m4GFg7xJaNVN2''"

definition testnet_address :: string where
  "testnet_address = ''mipcBbFg9gMiCh81Kj8tqqdgoZub1ZJRfn''"

definition script_A :: string where
  "script_A = ''76a91462e907b15cbf27d5425399ebf6f0fb50ebb88f1888ac''"

text \<open>
  \<^verbatim>\<open>new Address(x)\<close>, called without a network: an address object is returned as it
  is, a text is decoded with the network it encodes, anything else is a TypeError.
\<close>

fun example_new_Address :: "addr arg \<Rightarrow> exn + addr" where
  "example_new_Address (Obj a) = Inr a"
| "example_new_Address (Val (JStr s)) =
     (if s = address_A \<or> s = address_B then Inr (Livenet, s)
      else if s = testnet_address then Inr (Testnet, s)
      else Inl (LibError ''invalid address''))"
| "example_new_Address (Val v) = Inl TypeError"

text \<open>\<^verbatim>\<open>new Address(new Script(s))\<close>: no address can be derived but from \<open>script_A\<close>.\<close>

definition example_fromScript :: "json \<Rightarrow> exn + addr" where
  "example_fromScript s =
     (if s = JStr script_A then Inr (Livenet, address_A) else Inl (LibError ''CantDeriveAddress''))"

fun example_isHexa :: "string arg \<Rightarrow> bool" where
  "example_isHexa (Val (JStr s)) = is_hex_string s"
| "example_isHexa x = False"

fun example_new_Transaction :: "json \<Rightarrow> exn + string" where
  "example_new_Transaction (JStr s) =
     (if is_hex_string s then Inr s else Inl (LibError ''invalid transaction''))"
| "example_new_Transaction v = Inl InvalidArgument"

text \<open>
  \<^verbatim>\<open>UnspentOutput(data)\<close>, in the order of its checks: the data must be an object
  (InvalidArgument); the address, when given, goes through \<^verbatim>\<open>new Address\<close>;
  \<^verbatim>\<open>txid\<close> or \<^verbatim>\<open>txId\<close> must be hex text of at most 64 characters and
  \<^verbatim>\<open>vout\<close> or \<^verbatim>\<open>outputIndex\<close> a number (plain errors); a script and an amount
  must be given, and the amount must be a number (InvalidArgument). An \<^verbatim>\<open>amount\<close>
  is in whole coins here.
\<close>

fun example_isObject :: "json \<Rightarrow> bool" where
  "example_isObject (JObj kvs) = True"
| "example_isObject (JArr xs) = True"
| "example_isObject v = False"

fun example_field :: "json \<Rightarrow> string \<Rightarrow> json" where
  "example_field (JObj kvs) k = (case map_of kvs k of Some v \<Rightarrow> v | None \<Rightarrow> JUndefined)"
| "example_field v k = JUndefined"

fun example_valid_txid :: "json \<Rightarrow> bool" where
  "example_valid_txid (JStr s) = (is_hex_string s \<and> length s \<le> 64)"
| "example_valid_txid v = False"

definition example_unspent ::
  "addr option \<Rightarrow> json \<Rightarrow> json \<Rightarrow> json \<Rightarrow> json \<Rightarrow> json \<Rightarrow> json \<Rightarrow> exn + addr option output_format" where
  "example_unspent a t n spk sc am sat =
     (if \<not> example_valid_txid t then Inl (LibError ''Invalid TXID in object'')
      else if \<not> isNumber n then Inl (LibError ''Invalid outputIndex'')
      else if spk = JUndefined \<and> sc = JUndefined then Inl InvalidArgument
      else if \<not> example_isHexa (Val (if truthy spk then spk else sc)) then Inl (LibError ''Invalid script'')
      else if am = JUndefined \<and> sat = JUndefined then Inl InvalidArgument
      else if am = JUndefined \<and> \<not> isNumber sat then Inl InvalidArgument
      else (case (if am = JUndefined then sat else am) of
              JNum b \<Rightarrow>
                Inr \<lparr> txId = t, outputIndex = n,
                      satoshis = JNum (if am = JUndefined then b else b * 100000000),
                      script = (if truthy spk then spk else sc), address = a \<rparr>
            | v \<Rightarrow> Inl (LibError ''Invalid amount'')))"

fun example_UnspentOutput :: "addr utxo_arg \<Rightarrow> exn + addr option output_format" where
  "example_UnspentOutput (Formatted f) =
     example_unspent (Some (address f)) (txId f) (outputIndex f) JUndefined (script f) JUndefined (satoshis f)"
| "example_UnspentOutput (Plain x) =
     (if \<not> example_isObject x then Inl InvalidArgument
      else (case (if truthy (example_field x ''address'')
                  then (case example_new_Address (Val (example_field x ''address'')) of
                          Inl e \<Rightarrow> Inl e | Inr a \<Rightarrow> Inr (Some a))
                  else Inr None) of
              Inl e \<Rightarrow> Inl e
            | Inr a \<Rightarrow>
                example_unspent a
                  (if truthy (example_field x ''txid'') then example_field x ''txid'' else example_field x ''txId'')
                  (if example_field x ''vout'' = JUndefined then example_field x ''outputIndex''
                   else example_field x ''vout'')
                  (example_field x ''scriptPubKey'') (example_field x ''script'')
                  (example_field x ''amount'') (example_field x ''satoshis'')))"

fun example_map_elems :: "json \<Rightarrow> json list" where
  "example_map_elems (JArr xs) = xs"
| "example_map_elems (JObj kvs) = map snd kvs"
| "example_map_elems (JStr s) = map (\<lambda>c. JStr [c]) s"
| "example_map_elems v = []"

text \<open>The response bodies of the examples, and their parse; no other text is parsed.\<close>

definition fee_body :: string where
  \<open>fee_body = ''{"high_fee_per_kb":40000,"medium_fee_per_kb":25000,"low_fee_per_kb":10000}''\<close>

definition fee_info :: json where
  "fee_info = JObj [(''high_fee_per_kb'', JNum 40000), (''medium_fee_per_kb'', JNum 25000),
                    (''low_fee_per_kb'', JNum 10000)]"

definition txref :: json where
  "txref = JObj [(''tx_hash'', JStr ''f4184fc596403b9d638783cf57adfe4c75c605f6356fbc91338530e9831e9e16''),
                 (''tx_output_n'', JNum 0), (''value'', JNum 5000),
                 (''script'', JStr ''76a91462e907b15cbf27d5425399ebf6f0fb50ebb88f1888ac'')]"

definition overlap_body :: string where
  \<open>overlap_body = ''{"txrefs":[{"tx_hash":"f4184fc596403b9d638783cf57adfe4c75c605f6356fbc91338530e9831e9e16","tx_output_n":0,"value":5000,"script":"76a91462e907b15cbf27d5425399ebf6f0fb50ebb88f1888ac"}],"unconfirmed_txrefs":[{"tx_hash":"f4184fc596403b9d638783cf57adfe4c75c605f6356fbc91338530e9831e9e16","tx_output_n":0,"value":5000,"script":"76a91462e907b15cbf27d5425399ebf6f0fb50ebb88f1888ac"}]}''\<close>

definition overlap_info :: json where
  "overlap_info = JObj [(''txrefs'', JArr [txref]), (''unconfirmed_txrefs'', JArr [txref])]"

definition single_body :: string where
  \<open>single_body = ''{"txrefs":[{"tx_hash":"f4184fc596403b9d638783cf57adfe4c75c605f6356fbc91338530e9831e9e16","tx_output_n":0,"value":5000,"script":"76a91462e907b15cbf27d5425399ebf6f0fb50ebb88f1888ac"}]}''\<close>

definition single_info :: json where
  "single_info = JObj [(''txrefs'', JArr [txref])]"

text \<open>A body cut off in the middle: not JSON.\<close>

definition truncated_body :: string where
  \<open>truncated_body = ''{"txrefs":[{"tx_hash":"f4184fc596403b9d''\<close>

definition example_parse :: "string \<Rightarrow> json option" where
  "example_parse s =
     (if s = fee_body then Some fee_info
      else if s = overlap_body then Some overlap_info
      else if s = single_body then Some single_info
      else None)"

definition example_lib :: "(addr, string, addr option output_format) bitcore" where
  "example_lib =
     \<lparr> new_Address = example_new_Address,
       Address_toString = snd,
       Address_fromScript = example_fromScript,
       isHexa = example_isHexa,
       serialize = (\<lambda>t unsafe. Inr t),
       new_Transaction = example_new_Transaction,
       UnspentOutput = example_UnspentOutput,
       JSON_parse = example_parse,
       map_elems = example_map_elems \<rparr>"

text \<open>The object the formatter builds from \<open>txref\<close>, and the output made of it.\<close>

definition example_format :: "addr output_format" where
  "example_format =
     \<lparr> txId = JStr ''f4184fc596403b9d638783cf57adfe4c75c605f6356fbc91338530e9831e9e16'',
       outputIndex = JNum 0, satoshis = JNum 5000,
       script = JStr ''76a91462e907b15cbf27d5425399ebf6f0fb50ebb88f1888ac'',
       address = (Livenet, ''1A1zP1eP5QGefi2DMPTfTL5SLmv7DivfNa'') \<rparr>"

definition example_output :: "addr option output_format" where
  "example_output =
     \<lparr> txId = JStr ''f4184fc596403b9d638783cf57adfe4c75c605f6356fbc91338530e9831e9e16'',
       outputIndex = JNum 0, satoshis = JNum 5000,
       script = JStr ''76a91462e907b15cbf27d5425399ebf6f0fb50ebb88f1888ac'',
       address = Some (Livenet, ''1A1zP1eP5QGefi2DMPTfTL5SLmv7DivfNa'') \<rparr>"

text \<open>
  A provider that answers the query for \<open>address_A\<close> with one unspent output and every
  other request with status 500 and an empty body.
\<close>

definition only_A_answers :: http where
  "only_A_answers req =
     (if url req = ''https://api.blockcypher.com/v1/btc/main/addrs/1A1zP1eP5QGefi2DMPTfTL5SLmv7DivfNa?unspentOnly=true&includeScript=true''
      then Reply 200 (JStr single_body)
      else Reply 500 (JStr []))"

definition example_blockcypher :: "net blockcypher" where
  "example_blockcypher = Blockcypher example_networks JUndefined (Val (JStr ''livenet'')) (Val JUndefined)"

definition example_smoogs :: "net smoogs" where
  "example_smoogs = Smoogs example_networks (Val (JStr ''livenet'')) (Val JUndefined)"

section \<open>Properties\<close>

subsection \<open>Auxiliary facts\<close>


lemma example_lib_simps:
  "new_Address example_lib = example_new_Address"
  "Address_toString example_lib = snd"
  "isHexa example_lib = example_isHexa"
  "JSON_parse example_lib = example_parse"
  by (simp_all add: example_lib_def)

lemma example_blockcypher_eq:
  "example_blockcypher =
     \<lparr> bc_token = JUndefined, bc_url = Val (JStr ''https://api.blockcypher.com/v1/btc/main''),
       bc_network = Livenet \<rparr>"
  by (simp add: example_blockcypher_def Blockcypher_def Blockcypher_init_def example_networks_def)

lemma example_smoogs_eq:
  "example_smoogs =
     \<lparr> sm_url = Val (JStr ''https://smoogs.io/api/v1/blockchain''), sm_network = Livenet \<rparr>"
  by (simp add: example_smoogs_def Smoogs_def Smoogs_init_def example_networks_def)

subsection \<open>Broadcast: the already-exists classification\<close>




subsection \<open>Broadcast: argument check\<close>

text \<open>
  C6. A broadcast input that is neither accepted by \<^verbatim>\<open>JSUtil.isHexa\<close> nor an instance
  of \<^verbatim>\<open>Transaction\<close> makes both adapters throw InvalidArgument, and no request has
  been issued.
\<close>

theorem broadcast_rejects_invalid_input:
  assumes "\<not> isHexa L t" and "\<not> instanceOf t"
  shows "Blockcypher_broadcast N L h bc t = (Thrown InvalidArgument, [])
       \<and> Smoogs_broadcast N L h sm t = (Thrown InvalidArgument, [])"
  using assms by (simp add: Blockcypher_broadcast_def Smoogs_broadcast_def)

theorem broadcast_rejects_invalid_input_witness:
  "Blockcypher_broadcast example_networks example_lib (\<lambda>req. Reply 201 JNull) example_blockcypher
       (Val (JStr ''not a transaction'')) = (Thrown InvalidArgument, [])
   \<and> Smoogs_broadcast example_networks example_lib (\<lambda>req. Reply 201 JNull) example_smoogs
       (Val (JStr ''not a transaction'')) = (Thrown InvalidArgument, [])"
  by (rule broadcast_rejects_invalid_input)
     (simp_all add: example_lib_def is_hex_string_def)

subsection \<open>Construction\<close>

text \<open>
  C10. For both providers: constructing from a bare network identifier \<open>x\<close> (a name or
  a network object that \<^verbatim>\<open>Networks.get\<close> resolves to the network \<open>n\<close>) gives the same
  base URL as constructing with the provider's URL for \<open>n\<close> and \<open>n\<close> itself: the
  \<^verbatim>\<open>main\<close> / \<^verbatim>\<open>v1\<close> endpoint for livenet, the \<^verbatim>\<open>test3\<close> / \<^verbatim>\<open>testing\<close>
  endpoint otherwise. (A URL is not the name of a network.)
\<close>

theorem construction_url_roundtrip:
  assumes "Networks_get N x = Some n" and "truthy_arg x"
    and "bu = (if n = livenet N then ''https://api.blockcypher.com/v1/btc/main''
               else ''https://api.blockcypher.com/v1/btc/test3'')"
    and "su = (if n = livenet N then ''https://smoogs.io/api/v1/blockchain''
               else ''https://smoogs.io/api/testing/blockchain'')"
    and "Networks_get N (Val (JStr bu)) = None" and "Networks_get N (Val (JStr su)) = None"
  shows "bc_url (Blockcypher N tok x w) = bc_url (Blockcypher N tok (Val (JStr bu)) (Obj n))
       \<and> bc_url (Blockcypher N tok x w) = Val (JStr bu)
       \<and> sm_url (Smoogs N x w) = sm_url (Smoogs N (Val (JStr su)) (Obj n))
       \<and> sm_url (Smoogs N x w) = Val (JStr su)"
proof -
  have "bu \<noteq> []" and "su \<noteq> []"
    using assms(3,4) by (simp_all split: if_splits)
  then show ?thesis
    using assms
    by (simp add: Blockcypher_def Blockcypher_init_def Smoogs_def Smoogs_init_def)
qed

theorem construction_url_roundtrip_witness:
  "bc_url (Blockcypher example_networks JUndefined (Val (JStr ''testnet'')) (Val JUndefined))
     = bc_url (Blockcypher example_networks JUndefined
                (Val (JStr ''https://api.blockcypher.com/v1/btc/test3'')) (Obj Testnet))
   \<and> sm_url (Smoogs example_networks (Val (JStr ''livenet'')) (Val JUndefined))
     = sm_url (Smoogs example_networks
                (Val (JStr ''https://smoogs.io/api/v1/blockchain'')) (Obj Livenet))"
proof -
  have t: "bc_url (Blockcypher example_networks JUndefined (Val (JStr ''testnet'')) (Val JUndefined))
     = bc_url (Blockcypher example_networks JUndefined
                (Val (JStr ''https://api.blockcypher.com/v1/btc/test3'')) (Obj Testnet))"
    using construction_url_roundtrip [of example_networks "Val (JStr ''testnet'')" Testnet
        "''https://api.blockcypher.com/v1/btc/test3''" "''https://smoogs.io/api/testing/blockchain''"
        JUndefined "Val JUndefined"]
    by (simp add: example_networks_def)
  have l: "sm_url (Smoogs example_networks (Val (JStr ''livenet'')) (Val JUndefined))
     = sm_url (Smoogs example_networks
                (Val (JStr ''https://smoogs.io/api/v1/blockchain'')) (Obj Livenet))"
    using construction_url_roundtrip [of example_networks "Val (JStr ''livenet'')" Livenet
        "''https://api.blockcypher.com/v1/btc/main''" "''https://smoogs.io/api/v1/blockchain''"
        JUndefined "Val JUndefined"]
    by (simp add: example_networks_def)
  from t l show ?thesis ..
qed

subsection \<open>getTransaction: argument check\<close>




subsection \<open>Numbers: printing and parsing\<close>

text \<open>
  Decimal digits read back as the number they print; \<open>shortest\<close> returns a decimal that
  rounds to its argument; so \<^verbatim>\<open>parseInt(n, 10)\<close> is \<open>n\<close> for every double
  \<open>n\<close> from 0 up to, and not including, \<open>10 ^ 21\<close>. At \<open>10 ^ 21\<close> the exponent form
  \<^verbatim>\<open>"1e+21"\<close> is parsed, and its leading digit is the result.
\<close>

lemma digit_char_props: "is_digit (digit_char d) \<and> digit_val (digit_char d) = d mod 10 \<and> \<not> is_space (digit_char d) \<and> digit_char d \<noteq> CHR ''-'' \<and> digit_char d \<noteq> CHR ''+''"
proof -
  have "d mod 10 = 0 \<or> d mod 10 = 1 \<or> d mod 10 = 2 \<or> d mod 10 = 3 \<or> d mod 10 = 4
      \<or> d mod 10 = 5 \<or> d mod 10 = 6 \<or> d mod 10 = 7 \<or> d mod 10 = 8 \<or> d mod 10 = 9"
    by presburger
  then show ?thesis
    by (elim disjE) (simp_all add: digit_char_def is_digit_def digit_val_def is_space_def)
qed

lemma dec_nonempty: "dec n \<noteq> []"
  by (subst dec.simps) simp

lemma dec_all_digits: "c \<in> set (dec n) \<Longrightarrow> is_digit c \<and> \<not> is_space c \<and> c \<noteq> CHR ''-'' \<and> c \<noteq> CHR ''+''"
proof (induction n arbitrary: c rule: dec.induct)
  case (1 n)
  show ?case
  proof (cases "n < 10")
    case True
    with "1.prems" show ?thesis by (subst (asm) dec.simps) (simp add: digit_char_props)
  next
    case False
    with "1.prems" have "c \<in> set (dec (n div 10)) \<or> c = digit_char (n mod 10)"
      by (subst (asm) dec.simps) auto
    with False "1.IH" show ?thesis by (auto simp: digit_char_props)
  qed
qed

lemma digits_val_snoc: "digits_val (s @ [c]) = 10 * digits_val s + digit_val c"
  by (simp add: digits_val_def)

lemma digits_val_dec: "digits_val (dec n) = n"
proof (induction n rule: dec.induct)
  case (1 n)
  show ?case
  proof (cases "n < 10")
    case True
    then show ?thesis by (subst dec.simps) (simp add: digits_val_def digit_char_props)
  next
    case False
    with "1.IH" show ?thesis
      by (subst dec.simps) (simp add: digits_val_snoc digit_char_props)
  qed
qed

lemma parseInt_string_dec: "parseInt_string (dec n) = Some (int (fl n))"
proof -
  have hd: "hd (dec n) \<in> set (dec n)" using dec_nonempty by simp
  have d: "dropWhile is_space (dec n) = dec n"
    using dec_all_digits [OF hd] dec_nonempty [of n] by (cases "dec n") auto
  have t: "takeWhile is_digit (dec n) = dec n"
    using dec_all_digits by (simp add: takeWhile_eq_all_conv)
  show ?thesis
    using dec_all_digits [OF hd] dec_nonempty [of n]
    by (simp add: parseInt_string_def d t Let_def digits_val_dec)
qed

lemma less_pow_ndigits: "n < 10 ^ ndigits n"
proof (induction n rule: ndigits.induct)
  case (1 n)
  show ?case
  proof (cases "n < 10")
    case True
    then show ?thesis by (subst ndigits.simps) simp
  next
    case False
    with "1.IH" have "n div 10 < 10 ^ ndigits (n div 10)" by simp
    then have "n < 10 * 10 ^ ndigits (n div 10)" by (simp add: div_less_iff_less_mult mult.commute)
    with False show ?thesis by (subst ndigits.simps) simp
  qed
qed

lemma ndigits_le: "n < 10 ^ j \<Longrightarrow> 0 < j \<Longrightarrow> ndigits n \<le> j"
proof (induction n arbitrary: j rule: ndigits.induct)
  case (1 n)
  show ?case
  proof (cases "n < 10")
    case True
    with "1.prems" show ?thesis by (subst ndigits.simps) simp
  next
    case False
    with "1.prems" obtain i where j: "j = Suc i" by (cases j) auto
    with False "1.prems" have "0 < i" by (cases i) auto
    from "1.prems" j have "n div 10 < 10 ^ i" by (simp add: div_less_iff_less_mult mult.commute)
    with "1.IH" False \<open>0 < i\<close> have "ndigits (n div 10) \<le> i" by simp
    with False j show ?thesis by (subst ndigits.simps) simp
  qed
qed

lemma candidates_le: "v \<in> set (candidates n k) \<Longrightarrow> v \<le> 10 ^ ndigits n"
proof -
  assume v: "v \<in> set (candidates n k)"
  let ?d = "ndigits n"
  show ?thesis
  proof (cases "?d \<le> k")
    case True
    with v have "v = n" by (simp add: candidates_def)
    then show ?thesis using less_pow_ndigits [of n] by simp
  next
    case False
    let ?s = "(10::nat) ^ (?d - k)"
    have pos: "0 < ?s" by simp
    have split: "(10::nat) ^ ?d = 10 ^ k * ?s" using False by (simp flip: power_add)
    have "n < 10 ^ k * ?s" using less_pow_ndigits [of n] split by simp
    then have "n div ?s < 10 ^ k" using pos by (simp add: div_less_iff_less_mult)
    then have "n div ?s + 1 \<le> 10 ^ k" by simp
    then have "(n div ?s + 1) * ?s \<le> 10 ^ k * ?s" by (rule mult_le_mono1)
    then have hi: "n div ?s * ?s + ?s \<le> 10 ^ ?d" using split by (simp add: algebra_simps)
    from v False have "v = n div ?s * ?s \<or> v = n div ?s * ?s + ?s"
      by (auto simp: candidates_def Let_def split: if_splits)
    with hi show ?thesis by auto
  qed
qed

lemma fl_small: "n < 2 ^ 53 \<Longrightarrow> fl n = n"
  by (simp add: fl_def)

lemma find_SomeD: "List.find P xs = Some v \<Longrightarrow> P v \<and> v \<in> set xs"
  by (induction xs) (auto split: if_splits)

lemma in_concat_mapD: "v \<in> set (concat (map f ks)) \<Longrightarrow> \<exists>k. v \<in> set (f k)"
  by auto

lemma shortest_cases: "shortest n = n \<or> (fl (shortest n) = n \<and> (\<exists>k. shortest n \<in> set (candidates n k)))"
proof (cases "List.find (\<lambda>v. fl v = n) (concat (map (candidates n) [1, 2, 3, 4, 5, 6, 7, 8, 9, 10, 11, 12, 13, 14, 15, 16, 17]))")
  case None
  then show ?thesis unfolding shortest_def by simp
next
  case (Some v)
  from find_SomeD [OF Some] have "fl v = n" and "\<exists>k. v \<in> set (candidates n k)"
    by (blast dest: in_concat_mapD)+
  moreover from Some have "shortest n = v" unfolding shortest_def by simp
  ultimately show ?thesis by simp
qed

lemma fl_shortest: "fl n = n \<Longrightarrow> fl (shortest n) = n"
  using shortest_cases [of n] by auto

lemma shortest_le: "shortest n \<le> 10 ^ ndigits n"
  using shortest_cases [of n] candidates_le [of "shortest n" n] less_pow_ndigits [of n]
  by (auto simp: less_imp_le)

lemma bitlen_1e21: "bitlen 1000000000000000000000 = 70"
  by (simp add: bitlen.simps)

lemma fl_1e21: "fl 1000000000000000000000 = 1000000000000000000000"
  by (simp add: fl_def Let_def bitlen_1e21)

lemma shortest_less_1e21:
  assumes "n < 10 ^ 21" and "fl n = n"
  shows "shortest n < 10 ^ 21"
proof -
  have "ndigits n \<le> 21" using assms(1) by (rule ndigits_le) simp
  then have "(10::nat) ^ ndigits n \<le> 10 ^ 21" by (rule power_increasing) simp
  with shortest_le [of n] have le: "shortest n \<le> 10 ^ 21" by simp
  have "shortest n \<noteq> 10 ^ 21"
  proof
    assume e: "shortest n = 10 ^ 21"
    from fl_shortest [OF assms(2)] e have "fl (10 ^ 21) = n" by simp
    then have "n = 10 ^ 21" using fl_1e21 by simp
    with assms(1) show False by simp
  qed
  with le show ?thesis by simp
qed

lemma shortest_small:
  assumes "n < 10 ^ 15"
  shows "shortest n = n"
proof -
  have "ndigits n \<le> 15" using assms by (rule ndigits_le) simp
  then have "(10::nat) ^ ndigits n \<le> 10 ^ 15" by (rule power_increasing) simp
  with shortest_le [of n] have "shortest n \<le> 10 ^ 15" by simp
  then have "shortest n < 2 ^ 53" by simp
  then have "fl (shortest n) = shortest n" by (rule fl_small)
  moreover have "fl n = n" using assms by (simp add: fl_small)
  ultimately show ?thesis using fl_shortest [of n] by simp
qed

lemma nat_to_string_small: "n < 10 ^ 15 \<Longrightarrow> nat_to_string n = dec n"
  by (simp add: nat_to_string_def shortest_small)

lemma parseInt_number:
  assumes "0 \<le> n" and "n < 10 ^ 21" and "fl (nat n) = nat n"
  shows "parseInt (JNum n) = Some n"
proof -
  have lt: "nat n < 10 ^ 21" using assms(1,2) by (simp add: nat_less_iff)
  have "nat_to_string (nat n) = dec (shortest (nat n))"
    using shortest_less_1e21 [OF lt assms(3)] by (simp add: nat_to_string_def)
  then have "parseInt (JNum n) = Some (int (fl (shortest (nat n))))"
    using assms(1) by (simp add: parseInt_def number_to_string_def parseInt_string_dec)
  with fl_shortest [OF assms(3)] assms(1) show ?thesis by simp
qed

lemma parseInt_1e21: "parseInt (JNum 1000000000000000000000) = Some 1"
proof -
  have nd: "ndigits 1000000000000000000000 = 22" by (simp add: ndigits.simps)
  have c: "candidates 1000000000000000000000 (Suc 0) = [1000000000000000000000, 2000000000000000000000]"
    by (simp add: candidates_def Let_def nd)
  have s: "shortest 1000000000000000000000 = 1000000000000000000000"
    by (simp add: shortest_def c fl_1e21)
  have d: "dec 1000000000000000000000 = ''1000000000000000000000''"
    by (simp add: digit_char_def dec.simps)
  have str: "nat_to_string 1000000000000000000000 = ''1e+21''"
    by (simp add: nat_to_string_def s d nd Let_def digit_char_def dec.simps)
  show ?thesis
    by (simp add: parseInt_def number_to_string_def str parseInt_string_def is_space_def
                  is_digit_def digits_val_def digit_val_def fl_def Let_def)
qed

subsection \<open>Lists of fallible conversions, and the collection of responses\<close>

lemma mapM_length: "mapM f xs = Inr ys \<Longrightarrow> length ys = length xs"
  by (induction xs arbitrary: ys) (auto split: sum.splits)

lemma mapM_nth: "mapM f xs = Inr ys \<Longrightarrow> i < length xs \<Longrightarrow> f (xs ! i) = Inr (ys ! i)"
proof (induction xs arbitrary: ys i)
  case Nil
  then show ?case by simp
next
  case (Cons x xs)
  then show ?case by (cases i) (auto split: sum.splits)
qed

lemma mapM_first_failure:
  "mapM f pre = Inr ok \<Longrightarrow> f a = Inl x \<Longrightarrow> mapM f (pre @ a # post) = Inl x"
  by (induction pre arbitrary: ok) (auto split: sum.splits)

lemma all_reported_iff: "all_reported n seen = (\<forall>j<n. j \<in> set seen)"
  by (auto simp: all_reported_def list_all_iff)

lemma async_map_no_error:
  assumes "list_all reports_no_error outs"
    and "length results = length outs"
    and "\<And>j. j < length outs \<Longrightarrow> j \<in> set order \<or> j \<in> set seen"
    and "\<And>j. j < length outs \<Longrightarrow> j \<in> set seen \<Longrightarrow> results ! j = stored_value (outs ! j)"
  shows "async_map outs order seen results = Collected Null (map stored_value outs)"
  using assms(2-4)
proof (induction order arbitrary: seen results)
  case Nil
  then have all: "all_reported (length outs) seen" by (auto simp: all_reported_iff)
  with Nil have "results = map stored_value outs"
    by (intro nth_equalityI) (simp_all add: all_reported_iff)
  with all show ?case by simp
next
  case (Cons i order)
  show ?case
  proof (cases "all_reported (length outs) seen")
    case True
    with Cons.prems have "results = map stored_value outs"
      by (intro nth_equalityI) (simp_all add: all_reported_iff)
    with True show ?thesis by simp
  next
    case notall: False
    show ?thesis
    proof (cases "length outs \<le> i")
      case True
      have "async_map outs order seen results = Collected Null (map stored_value outs)"
      proof (rule Cons.IH [OF Cons.prems(1)])
        fix j assume j: "j < length outs"
        with Cons.prems(2) [of j] True show "j \<in> set order \<or> j \<in> set seen" by auto
        assume "j \<in> set seen"
        with j Cons.prems(3) show "results ! j = stored_value (outs ! j)" by simp
      qed
      with True notall show ?thesis by simp
    next
      case False
      then have i: "i < length outs" by simp
      with assms(1) have q: "reports_no_error (outs ! i)" by (simp add: list_all_length)
      then obtain e v where o: "outs ! i = Callback e v" and e: "\<not> truthy_err e"
        by (cases "outs ! i") auto
      have "async_map outs order (i # seen) (results[i := v]) = Collected Null (map stored_value outs)"
      proof (rule Cons.IH)
        show "length (results[i := v]) = length outs" using Cons.prems(1) by simp
      next
        fix j assume j: "j < length outs"
        with Cons.prems(2) [of j] show "j \<in> set order \<or> j \<in> set (i # seen)" by auto
        assume "j \<in> set (i # seen)"
        then show "results[i := v] ! j = stored_value (outs ! j)"
          using o i j Cons.prems(1) Cons.prems(3) [of j] by (cases "j = i") auto
      qed
      with False notall o e show ?thesis by simp
    qed
  qed
qed

lemma async_map_first_error:
  assumes "i < length outs" and "outs ! i = Callback e v" and "truthy_err e"
    and "\<And>j. j \<in> set pre \<Longrightarrow> j < length outs \<Longrightarrow> reports_no_error (outs ! j)"
    and "\<And>j. j \<in> set seen \<Longrightarrow> j < length outs \<Longrightarrow> reports_no_error (outs ! j)"
  shows "\<exists>r. async_map outs (pre @ i # post) seen results = Collected e r"
  using assms(4,5)
proof (induction pre arbitrary: seen results)
  case Nil
  from Nil(2) [of i] assms(1-3) have "i \<notin> set seen" by auto
  with assms(1) have "\<not> all_reported (length outs) seen" by (auto simp: all_reported_iff)
  with assms(1-3) show ?case by simp
next
  case (Cons j pre)
  from Cons.prems(2) [of i] assms(1-3) have "i \<notin> set seen" by auto
  with assms(1) have notall: "\<not> all_reported (length outs) seen" by (auto simp: all_reported_iff)
  show ?case
  proof (cases "length outs \<le> j")
    case True
    with Cons notall show ?thesis by simp
  next
    case False
    with Cons.prems(1) [of j] have q: "reports_no_error (outs ! j)" by simp
    then obtain e' v' where o: "outs ! j = Callback e' v'" and e': "\<not> truthy_err e'"
      by (cases "outs ! j") auto
    have "\<exists>r. async_map outs (pre @ i # post) (j # seen) (results[j := v']) = Collected e r"
    proof (rule Cons.IH)
      fix k assume "k \<in> set pre" and "k < length outs"
      with Cons.prems(1) show "reports_no_error (outs ! k)" by simp
    next
      fix k assume "k \<in> set (j # seen)" and "k < length outs"
      with Cons.prems(2) [of k] q show "reports_no_error (outs ! k)" by auto
    qed
    with False notall o e' show ?thesis by simp
  qed
qed

lemma flatten_all_arrays: "flatten (map (\<lambda>a. Some (g a)) xs) = concat (map (\<lambda>a. map Item (g a)) xs)"
  by (simp add: flatten_def comp_def)

subsection \<open>Example values\<close>

lemma parseInt_small: "0 \<le> n \<Longrightarrow> n < 2 ^ 53 \<Longrightarrow> parseInt (JNum n) = Some n"
proof (rule parseInt_number)
  assume a: "0 \<le> n" "n < 2 ^ 53"
  show "0 \<le> n" by fact
  from a(2) show "n < 10 ^ 21" by simp
  from a have "nat n < 2 ^ 53" by (simp add: nat_less_iff)
  then show "fl (nat n) = nat n" by (rule fl_small)
qed

lemma example_fee_tiers:
  "FeeEstimation_fromBlockcypher example_lib (JStr fee_body)
     = Inr \<lparr> high = \<lparr> withinBlocks = 0, feePerKb = Some 40000 \<rparr>,
             medium = \<lparr> withinBlocks = 3, feePerKb = Some 25000 \<rparr>,
             low = \<lparr> withinBlocks = 7, feePerKb = Some 10000 \<rparr> \<rparr>"
  by (simp add: FeeEstimation_fromBlockcypher_def example_lib_def example_parse_def fee_info_def
                new_FeeEstimation_def parseInt_small)

subsection \<open>Fee estimation: tier selection\<close>

text \<open>
  The tier Blockcypher's fee estimation selects, for a target that is a double from 0 up
  to, not including, \<open>10 ^ 21\<close>, when the provider answers 200 with a body from which
  the three tiers are read: the fastest below 3, the medium one from 3 to 6, the slowest
  from 7 on.
\<close>

lemma feeEstimation_tier_selection:
  assumes "0 \<le> n" and "n < 10 ^ 21" and "fl (nat n) = nat n"
    and "FeeEstimation_fromBlockcypher L body = Inr est"
  shows "fst (Blockcypher_feeEstimation N L (\<lambda>req. Reply 200 body) self (JNum n))
           = Callback Null (Some (if n < 3 then high est else if n < 7 then medium est else low est))"
  using assms(1,4) parseInt_number [OF assms(1-3)]
  by (simp add: Blockcypher_feeEstimation_def Blockcypher_feeEstimation_response_def
                Blockcypher_requestGet_def select_tier_def Let_def)

lemma feeEstimation_tier_selection_boundaries:
  "fst (Blockcypher_feeEstimation example_networks example_lib (\<lambda>req. Reply 200 (JStr fee_body))
          example_blockcypher (JNum 2)) = Callback Null (Some \<lparr> withinBlocks = 0, feePerKb = Some 40000 \<rparr>)
   \<and> fst (Blockcypher_feeEstimation example_networks example_lib (\<lambda>req. Reply 200 (JStr fee_body))
          example_blockcypher (JNum 3)) = Callback Null (Some \<lparr> withinBlocks = 3, feePerKb = Some 25000 \<rparr>)
   \<and> fst (Blockcypher_feeEstimation example_networks example_lib (\<lambda>req. Reply 200 (JStr fee_body))
          example_blockcypher (JNum 6)) = Callback Null (Some \<lparr> withinBlocks = 3, feePerKb = Some 25000 \<rparr>)
   \<and> fst (Blockcypher_feeEstimation example_networks example_lib (\<lambda>req. Reply 200 (JStr fee_body))
          example_blockcypher (JNum 7)) = Callback Null (Some \<lparr> withinBlocks = 7, feePerKb = Some 10000 \<rparr>)"
  using feeEstimation_tier_selection [OF _ _ _ example_fee_tiers, of 2 example_networks example_blockcypher]
        feeEstimation_tier_selection [OF _ _ _ example_fee_tiers, of 3 example_networks example_blockcypher]
        feeEstimation_tier_selection [OF _ _ _ example_fee_tiers, of 6 example_networks example_blockcypher]
        feeEstimation_tier_selection [OF _ _ _ example_fee_tiers, of 7 example_networks example_blockcypher]
  by (simp add: fl_small)

text \<open>
  C2, at the target \<open>10 ^ 21\<close>. The target is a non-negative integer and at least 7, yet
  the fastest tier is selected: \<^verbatim>\<open>parseInt(1e21, 10)\<close> reads the text
  \<^verbatim>\<open>"1e+21"\<close> and returns 1.
\<close>

theorem feeEstimation_1e21_selects_fastest:
  "fst (Blockcypher_feeEstimation example_networks example_lib (\<lambda>req. Reply 200 (JStr fee_body))
          example_blockcypher (JNum 1000000000000000000000))
     = Callback Null (Some \<lparr> withinBlocks = 0, feePerKb = Some 40000 \<rparr>)"
  by (simp add: Blockcypher_feeEstimation_def Blockcypher_feeEstimation_response_def
                Blockcypher_requestGet_def select_tier_def Let_def parseInt_1e21 example_fee_tiers)

subsection \<open>Failures of the provider\<close>

text \<open>
  C5, at a failing response. Smoogs' fee estimation, answered with status 500 and no
  transport error, invokes the callback with \<^verbatim>\<open>undefined\<close> as its only argument: the
  caller sees neither an error nor an estimate, and nothing of the status or body.
\<close>

theorem smoogs_feeEstimation_swallows_failure:
  "Smoogs_feeEstimation example_networks example_lib
       (\<lambda>req. Reply 500 (JObj [(''error'', JStr ''Internal Server Error'')])) example_smoogs (JNum 2)
     = (Callback (Value JUndefined) None,
        [\<lparr> meth = GET, url = ''https://smoogs.io/api/v1/blockchain/fee/2'', headers = [],
            json_opt = JBool True \<rparr>])
   \<and> \<not> truthy_err (Value JUndefined)"
  by (simp add: Smoogs_feeEstimation_def Smoogs_feeEstimation_response_def Smoogs_requestGet_def
                example_smoogs_eq Let_def parseInt_small number_to_string_def nat_to_string_small
                dec.simps digit_char_def)

text \<open>
  Smoogs' unspent-output lookup keeps quiet about an exception of the mapping that is not
  an InvalidArgument: the callback receives the response body as it came, as the result.
\<close>

lemma smoogs_getUnspentUtxos_swallows_exception:
  assumes "mapM (\<lambda>x. UnspentOutput L (Plain x)) (map_elems L b) = Inl e" and "e \<noteq> InvalidArgument"
  shows "Smoogs_getUnspentUtxos_response L (Reply 200 b) = Callback Null (Some (Unmapped b))"
  using assms by (simp add: Smoogs_getUnspentUtxos_response_def)

lemma smoogs_getUnspentUtxos_swallows_exception_example:
  "Smoogs_getUnspentUtxos_response example_lib
       (Reply 200 (JArr [JObj [(''txid'', JStr ''zz''), (''vout'', JNum 0),
                               (''scriptPubKey'', JStr script_A), (''satoshis'', JNum 5000)]]))
     = Callback Null
         (Some (Unmapped (JArr [JObj [(''txid'', JStr ''zz''), (''vout'', JNum 0),
                                      (''scriptPubKey'', JStr script_A), (''satoshis'', JNum 5000)]])))"
  using smoogs_getUnspentUtxos_swallows_exception
          [of example_lib
              "JArr [JObj [(''txid'', JStr ''zz''), (''vout'', JNum 0),
                           (''scriptPubKey'', JStr script_A), (''satoshis'', JNum 5000)]]"
              "LibError ''Invalid TXID in object''"]
  by (simp add: example_lib_def example_unspent_def is_hex_string_def)

subsection \<open>Unparsable bodies\<close>

text \<open>
  When a response with status 200 carries a body that \<^verbatim>\<open>JSON.parse\<close> rejects, both of
  Blockcypher's normalizers fail with the parser's SyntaxError. Fee estimation catches it
  and hands it to the callback: an error that differs from what any other status yields,
  which is the body as it came.
\<close>

lemma feeEstimation_unparsable_body:
  assumes "JSON_parse L s = None" and "isNumber w" and "ge0 w" and "st \<noteq> 200"
  shows "FeeEstimation_fromBlockcypher L (JStr s) = Inl SyntaxError
       \<and> processAddressInfoIntoOutputs L (JStr s) = Inl SyntaxError
       \<and> fst (Blockcypher_feeEstimation N L (\<lambda>req. Reply 200 (JStr s)) self w)
           = Callback (Exception SyntaxError) None
       \<and> fst (Blockcypher_feeEstimation N L (\<lambda>req. Reply st body) self w)
           = Callback (Value body) None"
  using assms
  by (simp add: FeeEstimation_fromBlockcypher_def processAddressInfoIntoOutputs_def
                Blockcypher_feeEstimation_def Blockcypher_feeEstimation_response_def
                Blockcypher_requestGet_def Let_def)

lemma example_parse_truncated: "JSON_parse example_lib truncated_body = None"
  by (simp add: example_lib_def example_parse_def truncated_body_def fee_body_def overlap_body_def
                single_body_def)

text \<open>
  The unspent-output lookup does not catch it: the SyntaxError escapes the response
  handler of \<^verbatim>\<open>_getAddress\<close>, and the callback is not invoked.
\<close>

lemma getAddress_unparsable_body:
  assumes "new_Address L a = Inr ad" and "JSON_parse L (js_to_string b) = None"
  shows "fst (Blockcypher_getUnspentUtxos N L (\<lambda>req. Reply 200 b) (0 # order) self (Many [a]))
           = Thrown SyntaxError"
  using assms
  by (simp add: Blockcypher_getUnspentUtxos_def Blockcypher_getAddress_request_def
                Blockcypher_getAddress_response_def Blockcypher_requestGet_def
                processAddressInfoIntoOutputs_def all_reported_def Let_def)

text \<open>
  C9, at a body that is not JSON. The provider answers the query for one address with
  status 200 and a truncated body. \<^verbatim>\<open>JSON.parse\<close> throws inside the response handler
  of \<^verbatim>\<open>_getAddress\<close>, which has no \<^verbatim>\<open>try\<close>: the exception escapes and the
  caller's callback is never invoked, with no error of any kind. Fee estimation, given the
  same body, passes the SyntaxError to its callback.
\<close>

theorem getUnspentUtxos_unparsable_body_escapes:
  "Blockcypher_getUnspentUtxos example_networks example_lib (\<lambda>req. Reply 200 (JStr truncated_body))
       [0] example_blockcypher (Single (Val (JStr address_A)))
     = (Thrown SyntaxError,
        [\<lparr> meth = GET,
            url = ''https://api.blockcypher.com/v1/btc/main/addrs/1A1zP1eP5QGefi2DMPTfTL5SLmv7DivfNa?unspentOnly=true&includeScript=true'',
            headers = [(''Content-Type'', ''application/json'')], json_opt = JUndefined \<rparr>])
   \<and> fst (Blockcypher_feeEstimation example_networks example_lib
            (\<lambda>req. Reply 200 (JStr truncated_body)) example_blockcypher (JNum 2))
       = Callback (Exception SyntaxError) None"
proof -
  have 1: "Blockcypher_getUnspentUtxos example_networks example_lib (\<lambda>req. Reply 200 (JStr truncated_body))
       [0] example_blockcypher (Single (Val (JStr address_A)))
     = (Thrown SyntaxError,
        [\<lparr> meth = GET,
            url = ''https://api.blockcypher.com/v1/btc/main/addrs/1A1zP1eP5QGefi2DMPTfTL5SLmv7DivfNa?unspentOnly=true&includeScript=true'',
            headers = [(''Content-Type'', ''application/json'')], json_opt = JUndefined \<rparr>])"
    using example_parse_truncated
    by (simp add: Blockcypher_getUnspentUtxos_def Blockcypher_getAddress_request_def
                  Blockcypher_getAddress_response_def Blockcypher_requestGet_def OPTS_def
                  processAddressInfoIntoOutputs_def all_reported_def Let_def
                  example_blockcypher_eq example_lib_simps address_A_def)
  have 2: "fst (Blockcypher_feeEstimation example_networks example_lib
            (\<lambda>req. Reply 200 (JStr truncated_body)) example_blockcypher (JNum 2))
       = Callback (Exception SyntaxError) None"
    using feeEstimation_unparsable_body
            [where L = example_lib and s = truncated_body and w = "JNum 2" and st = 404
               and N = example_networks and self = example_blockcypher,
             OF example_parse_truncated]
    by simp
  from 1 2 show ?thesis ..
qed

subsection \<open>getUnspentUtxos: the address list\<close>

lemma async_map_nothing: "async_map [] order seen [] = Collected Null []"
  by (cases order) (simp_all add: all_reported_def)

lemma getAddress_request_network:
  "Blockcypher_getAddress_request N L h (bc\<lparr>bc_network := n\<rparr>) = Blockcypher_getAddress_request N L h bc"
  by (simp add: fun_eq_iff Blockcypher_getAddress_request_def Blockcypher_requestGet_def)

lemma Smoogs_requestGet_network:
  "Smoogs_requestGet N h (sm\<lparr>sm_network := n\<rparr>) = Smoogs_requestGet N h sm"
  by (simp add: fun_eq_iff Smoogs_requestGet_def)

lemma example_process_single:
  "processAddressInfoIntoOutputs example_lib (JStr single_body) = Inr [example_output]"
  by (simp add: processAddressInfoIntoOutputs_def blockcypherToBitcoreOutputFormat_def
                example_lib_def example_parse_def fee_body_def overlap_body_def single_body_def
                single_info_def txref_def is_hex_string_def example_output_def
                example_fromScript_def example_unspent_def script_A_def address_A_def)

lemma example_process_overlap:
  "processAddressInfoIntoOutputs example_lib (JStr overlap_body) = Inr [example_output, example_output]"
  by (simp add: processAddressInfoIntoOutputs_def blockcypherToBitcoreOutputFormat_def
                example_lib_def example_parse_def fee_body_def overlap_body_def
                overlap_info_def txref_def is_hex_string_def example_output_def
                example_fromScript_def example_unspent_def script_A_def address_A_def)

text \<open>
  C7, as the code has it. Each entry of the list goes through \<^verbatim>\<open>new Address(entry)\<close>,
  which is given no network: when the constructor rejects an entry, both adapters throw
  its exception and no request has been issued; the adapter's own network plays no part
  in the call; and an empty list is not rejected (Blockcypher then reports an empty
  result without any request).
\<close>

theorem getUnspentUtxos_address_check:
  assumes "as_array as = pre @ a # post"
    and "mapM (new_Address L) pre = Inr ok"
    and "new_Address L a = Inl x"
  shows "Blockcypher_getUnspentUtxos N L h order bc as = (Thrown x, [])
       \<and> Smoogs_getUnspentUtxos N L h sm as = (Thrown x, [])
       \<and> Blockcypher_getUnspentUtxos N L h order (bc\<lparr>bc_network := n\<rparr>) bs
           = Blockcypher_getUnspentUtxos N L h order bc bs
       \<and> Smoogs_getUnspentUtxos N L h (sm\<lparr>sm_network := n\<rparr>) bs = Smoogs_getUnspentUtxos N L h sm bs
       \<and> Blockcypher_getUnspentUtxos N L h order bc (Many []) = (Callback Null (Some []), [])"
proof -
  have "mapM (new_Address L) (as_array as) = Inl x"
    using assms by (simp add: mapM_first_failure)
  then show ?thesis
    by (simp add: Blockcypher_getUnspentUtxos_def Smoogs_getUnspentUtxos_def async_map_nothing
                  flatten_def getAddress_request_network Smoogs_requestGet_network
             split: sum.splits)
qed

theorem getUnspentUtxos_address_check_witness:
  "Blockcypher_getUnspentUtxos example_networks example_lib only_A_answers [0, 1] example_blockcypher
       (Many [Val (JStr address_A), Val (JStr ''xyz'')]) = (Thrown (LibError ''invalid address''), [])
   \<and> Smoogs_getUnspentUtxos example_networks example_lib only_A_answers example_smoogs
       (Many [Val (JStr address_A), Val (JStr ''xyz'')]) = (Thrown (LibError ''invalid address''), [])"
proof -
  have 1: "as_array (Many [Val (JStr address_A), Val (JStr ''xyz'')]) = [Val (JStr address_A)] @ Val (JStr ''xyz'') # []"
    by simp
  have 2: "mapM (new_Address example_lib) [Val (JStr address_A)] = Inr [(Livenet, address_A)]"
    by (simp add: example_lib_simps address_A_def)
  have 3: "new_Address example_lib (Val (JStr ''xyz'')) = Inl (LibError ''invalid address'')"
    by (simp add: example_lib_simps address_A_def address_B_def testnet_address_def)
  from getUnspentUtxos_address_check
         [where N = example_networks and h = only_A_answers and order = "[0, 1]"
            and bc = example_blockcypher and sm = example_smoogs, OF 1 2 3]
  show ?thesis by simp
qed

text \<open>
  C7 fails on the empty list, which yields an empty result, and on a testnet address
  given to an adapter constructed for livenet, which is queried like any other.
\<close>

theorem getUnspentUtxos_accepts_counterexample:
  "Blockcypher_getUnspentUtxos example_networks example_lib only_A_answers [] example_blockcypher (Many [])
     = (Callback Null (Some []), [])
   \<and> bc_network example_blockcypher = Livenet
   \<and> new_Address example_lib (Val (JStr testnet_address)) = Inr (Testnet, testnet_address)
   \<and> Blockcypher_getUnspentUtxos example_networks example_lib (\<lambda>req. Reply 200 (JStr single_body)) [0]
       example_blockcypher (Single (Val (JStr testnet_address)))
     = (Callback Null (Some [Item example_output]),
        [\<lparr> meth = GET,
            url = ''https://api.blockcypher.com/v1/btc/main/addrs/mipcBbFg9gMiCh81Kj8tqqdgoZub1ZJRfn?unspentOnly=true&includeScript=true'',
            headers = [(''Content-Type'', ''application/json'')], json_opt = JUndefined \<rparr>])"
  by (simp add: Blockcypher_getUnspentUtxos_def Blockcypher_getAddress_request_def
                Blockcypher_getAddress_response_def Blockcypher_requestGet_def OPTS_def
                example_blockcypher_eq example_process_single flatten_def Let_def
                example_lib_simps testnet_address_def address_A_def address_B_def all_reported_def)

subsection \<open>getUnspentUtxos: the aggregated result\<close>

lemma format_keeps_reference:
  "blockcypherToBitcoreOutputFormat L r = Inr f \<Longrightarrow>
     getprop r ''tx_hash'' = Inr (txId f) \<and> getprop r ''tx_output_n'' = Inr (outputIndex f)"
  by (auto simp: blockcypherToBitcoreOutputFormat_def split: sum.splits)

text \<open>
  C3, as the code has it. When every address is accepted, every request is answered with
  status 200 and every body is converted, the result is, address by address in request
  order, the outputs built from the confirmed references followed by those built from the
  unconfirmed ones: one object per reference, carrying that reference's
  \<^verbatim>\<open>tx_hash\<close> and \<^verbatim>\<open>tx_output_n\<close>, handed to \<^verbatim>\<open>UnspentOutput\<close>. Nothing is
  collapsed.
\<close>

theorem getUnspentUtxos_keeps_every_reference:
  assumes "mapM (new_Address L) (as_array as) = Inr addrs"
    and "{..<length addrs} \<subseteq> set order"
    and "\<forall>a\<in>set addrs.
           snd (Blockcypher_getAddress_request N L h self a) = Reply 200 (body a)
         \<and> JSON_parse L (js_to_string (body a)) = Some (info a)
         \<and> getprop (info a) ''txrefs'' = Inr (confirmed a)
         \<and> getprop (info a) ''unconfirmed_txrefs'' = Inr (unconfirmed a)
         \<and> mapM (blockcypherToBitcoreOutputFormat L)
               (getMaybeArray (confirmed a) @ getMaybeArray (unconfirmed a)) = Inr (formats a)
         \<and> mapM (\<lambda>f. UnspentOutput L (Formatted f)) (formats a) = Inr (outs a)"
  shows "fst (Blockcypher_getUnspentUtxos N L h order self as)
           = Callback Null (Some (concat (map (\<lambda>a. map Item (outs a)) addrs)))
       \<and> (\<forall>a\<in>set addrs.
             length (outs a) = length (getMaybeArray (confirmed a)) + length (getMaybeArray (unconfirmed a))
           \<and> map (\<lambda>f. (Inr (txId f), Inr (outputIndex f))) (formats a)
               = map (\<lambda>r. (getprop r ''tx_hash'', getprop r ''tx_output_n''))
                   (getMaybeArray (confirmed a) @ getMaybeArray (unconfirmed a)))"
proof -
  let ?outs = "map (\<lambda>c. Blockcypher_getAddress_response L (snd c))
                 (map (Blockcypher_getAddress_request N L h self) addrs)"
  have resp: "Blockcypher_getAddress_response L (snd (Blockcypher_getAddress_request N L h self a))
                = Callback Null (Some (outs a))" if "a \<in> set addrs" for a
    using assms(3) that
    by (simp add: Blockcypher_getAddress_response_def processAddressInfoIntoOutputs_def)
  then have outs: "?outs = map (\<lambda>a. Callback Null (Some (outs a))) addrs"
    by simp
  have "async_map ?outs order [] (replicate (length addrs) None) = Collected Null (map stored_value ?outs)"
  proof (rule async_map_no_error)
    show "list_all reports_no_error ?outs"
      unfolding outs by (simp add: list_all_iff)
    show "length (replicate (length addrs) None) = length ?outs" by simp
    fix j assume j: "j < length ?outs"
    with assms(2) have "j \<in> set order" by auto
    then show "j \<in> set order \<or> j \<in> set []" ..
    assume "j \<in> set []"
    then show "replicate (length addrs) None ! j = stored_value (?outs ! j)" by simp
  qed
  also have "map stored_value ?outs = map (\<lambda>a. Some (outs a)) addrs"
    unfolding outs by simp
  finally have first: "fst (Blockcypher_getUnspentUtxos N L h order self as)
           = Callback Null (Some (concat (map (\<lambda>a. map Item (outs a)) addrs)))"
    using assms(1) by (simp add: Blockcypher_getUnspentUtxos_def Let_def flatten_all_arrays)
  have second: "length (outs a) = length (getMaybeArray (confirmed a)) + length (getMaybeArray (unconfirmed a))
           \<and> map (\<lambda>f. (Inr (txId f), Inr (outputIndex f))) (formats a)
               = map (\<lambda>r. (getprop r ''tx_hash'', getprop r ''tx_output_n''))
                   (getMaybeArray (confirmed a) @ getMaybeArray (unconfirmed a))"
    if a: "a \<in> set addrs" for a
  proof -
    let ?refs = "getMaybeArray (confirmed a) @ getMaybeArray (unconfirmed a)"
    from assms(3) a have f: "mapM (blockcypherToBitcoreOutputFormat L) ?refs = Inr (formats a)"
      and o: "mapM (\<lambda>f. UnspentOutput L (Formatted f)) (formats a) = Inr (outs a)"
      by simp_all
    have len: "length (formats a) = length ?refs" using f by (rule mapM_length)
    have "length (outs a) = length (formats a)" using o by (rule mapM_length)
    with len have l: "length (outs a) = length (getMaybeArray (confirmed a)) + length (getMaybeArray (unconfirmed a))"
      by simp
    have "map (\<lambda>f. (Inr (txId f), Inr (outputIndex f))) (formats a)
            = map (\<lambda>r. (getprop r ''tx_hash'', getprop r ''tx_output_n'')) ?refs"
    proof (rule nth_equalityI)
      show "length (map (\<lambda>f. (Inr (txId f), Inr (outputIndex f))) (formats a))
              = length (map (\<lambda>r. (getprop r ''tx_hash'', getprop r ''tx_output_n'')) ?refs)"
        using len by simp
    next
      fix i assume "i < length (map (\<lambda>f. (Inr (txId f), Inr (outputIndex f))) (formats a))"
      then have i: "i < length ?refs" using len by simp
      from mapM_nth [OF f i] have "blockcypherToBitcoreOutputFormat L (?refs ! i) = Inr (formats a ! i)" .
      from format_keeps_reference [OF this]
      have k: "(Inr (txId (formats a ! i)), Inr (outputIndex (formats a ! i)))
                 = (getprop (?refs ! i) ''tx_hash'', getprop (?refs ! i) ''tx_output_n'')"
        by simp
      have l: "map (\<lambda>f. (Inr (txId f), Inr (outputIndex f))) (formats a) ! i
                 = (Inr (txId (formats a ! i)), Inr (outputIndex (formats a ! i)))"
        using i len by (intro nth_map) simp
      have r: "map (\<lambda>r. (getprop r ''tx_hash'', getprop r ''tx_output_n'')) ?refs ! i
                 = (getprop (?refs ! i) ''tx_hash'', getprop (?refs ! i) ''tx_output_n'')"
        using i by (intro nth_map)
      show "map (\<lambda>f. (Inr (txId f), Inr (outputIndex f))) (formats a) ! i
              = map (\<lambda>r. (getprop r ''tx_hash'', getprop r ''tx_output_n'')) ?refs ! i"
        unfolding l r by (rule k)
    qed
    with l show ?thesis by simp
  qed
  from first second show ?thesis by blast
qed

theorem getUnspentUtxos_keeps_every_reference_witness:
  "fst (Blockcypher_getUnspentUtxos example_networks example_lib (\<lambda>req. Reply 200 (JStr single_body))
          [1, 0] example_blockcypher (Many [Val (JStr address_A), Val (JStr address_B)]))
     = Callback Null (Some [Item example_output, Item example_output])"
proof -
  let ?addrs = "[(Livenet, address_A), (Livenet, address_B)]"
  have 1: "mapM (new_Address example_lib) (as_array (Many [Val (JStr address_A), Val (JStr address_B)]))
             = Inr ?addrs"
    by (simp add: example_lib_simps address_A_def address_B_def)
  have 2: "{..<length ?addrs} \<subseteq> set [1, 0]" by auto
  have 3: "\<forall>a\<in>set ?addrs.
           snd (Blockcypher_getAddress_request example_networks example_lib
                  (\<lambda>req. Reply 200 (JStr single_body)) example_blockcypher a) = Reply 200 (JStr single_body)
         \<and> JSON_parse example_lib (js_to_string (JStr single_body)) = Some single_info
         \<and> getprop single_info ''txrefs'' = Inr (JArr [txref])
         \<and> getprop single_info ''unconfirmed_txrefs'' = Inr JUndefined
         \<and> mapM (blockcypherToBitcoreOutputFormat example_lib)
               (getMaybeArray (JArr [txref]) @ getMaybeArray JUndefined) = Inr [example_format]
         \<and> mapM (\<lambda>f. UnspentOutput example_lib (Formatted f)) [example_format] = Inr [example_output]"
    by (simp add: Blockcypher_getAddress_request_def Blockcypher_requestGet_def
                  blockcypherToBitcoreOutputFormat_def
                  example_lib_def example_parse_def fee_body_def overlap_body_def single_body_def
                  single_info_def txref_def is_hex_string_def example_output_def example_format_def
                  example_fromScript_def example_unspent_def script_A_def address_A_def)
  from getUnspentUtxos_keeps_every_reference
         [of example_lib "Many [Val (JStr address_A), Val (JStr address_B)]" ?addrs "[1, 0]"
             example_networks "\<lambda>req. Reply 200 (JStr single_body)" example_blockcypher
             "\<lambda>a. JStr single_body" "\<lambda>a. single_info" "\<lambda>a. JArr [txref]" "\<lambda>a. JUndefined"
             "\<lambda>a. [example_format]" "\<lambda>a. [example_output]", OF 1 2 3]
  show ?thesis by simp
qed

text \<open>
  C3 fails when the provider lists the same reference as confirmed and as unconfirmed:
  the result holds the output twice.
\<close>

theorem getUnspentUtxos_duplicate_counterexample:
  "fst (Blockcypher_getUnspentUtxos example_networks example_lib (\<lambda>req. Reply 200 (JStr overlap_body))
          [0] example_blockcypher (Single (Val (JStr address_A))))
     = Callback Null (Some [Item example_output, Item example_output])"
  by (simp add: Blockcypher_getUnspentUtxos_def Blockcypher_getAddress_request_def
                Blockcypher_getAddress_response_def Blockcypher_requestGet_def
                example_process_overlap flatten_def Let_def example_lib_simps address_A_def
                all_reported_def)

subsection \<open>getUnspentUtxos: a failing fetch\<close>

text \<open>
  When the first response to arrive with a truthy error argument for \<^verbatim>\<open>cb\<close> (a
  transport error, or a status other than 200 with a truthy body) does so before any
  handler has thrown, the whole call reports that error and no list.
\<close>

lemma getUnspentUtxos_fail_fast:
  assumes "mapM (new_Address L) (as_array as) = Inr addrs"
    and "order = pre @ i # post" and "i < length addrs"
    and "Blockcypher_getAddress_response L (snd (Blockcypher_getAddress_request N L h self (addrs ! i)))
           = Callback e v"
    and "truthy_err e"
    and "\<forall>j\<in>set pre. j < length addrs \<longrightarrow>
           reports_no_error (Blockcypher_getAddress_response L
             (snd (Blockcypher_getAddress_request N L h self (addrs ! j))))"
  shows "fst (Blockcypher_getUnspentUtxos N L h order self as) = Callback e None"
proof -
  let ?outs = "map (\<lambda>c. Blockcypher_getAddress_response L (snd c))
                 (map (Blockcypher_getAddress_request N L h self) addrs)"
  have "\<exists>r. async_map ?outs (pre @ i # post) [] (replicate (length addrs) None) = Collected e r"
  proof (rule async_map_first_error)
    show "i < length ?outs" using assms(3) by simp
    show "?outs ! i = Callback e v" using assms(3,4) by simp
    show "truthy_err e" by fact
    fix j assume "j \<in> set pre" and "j < length ?outs"
    with assms(6) show "reports_no_error (?outs ! j)" by simp
  next
    fix j :: nat assume "j \<in> set []"
    then show "reports_no_error (?outs ! j)" by simp
  qed
  then obtain r where "async_map ?outs order [] (replicate (length addrs) None) = Collected e r"
    using assms(2) by auto
  with assms(1,5) show ?thesis
    by (simp add: Blockcypher_getUnspentUtxos_def Let_def)
qed

lemma getAddress_response_failures:
  "Blockcypher_getAddress_response L (NetError m) = Callback (NetErr m) None"
  "st \<noteq> 200 \<Longrightarrow> Blockcypher_getAddress_response L (Reply st b) = Callback (Value b) None"
  by (simp_all add: Blockcypher_getAddress_response_def)

lemma getUnspentUtxos_fail_fast_example:
  "fst (Blockcypher_getUnspentUtxos example_networks example_lib
          (\<lambda>req. if url req = url (fst (Blockcypher_getAddress_request example_networks example_lib
                                         only_A_answers example_blockcypher (Livenet, address_A)))
                  then Reply 200 (JStr single_body) else Reply 429 (JStr ''Too Many Requests''))
          [0, 1] example_blockcypher (Many [Val (JStr address_A), Val (JStr address_B)]))
     = Callback (Value (JStr ''Too Many Requests'')) None"
proof -
  let ?h = "\<lambda>req. if url req = url (fst (Blockcypher_getAddress_request example_networks example_lib
                                         only_A_answers example_blockcypher (Livenet, address_A)))
                  then Reply 200 (JStr single_body) else Reply 429 (JStr ''Too Many Requests'')"
  let ?addrs = "[(Livenet, address_A), (Livenet, address_B)]"
  have 1: "mapM (new_Address example_lib) (as_array (Many [Val (JStr address_A), Val (JStr address_B)]))
             = Inr ?addrs"
    by (simp add: example_lib_simps address_A_def address_B_def)
  have A: "Blockcypher_getAddress_response example_lib
             (snd (Blockcypher_getAddress_request example_networks example_lib ?h example_blockcypher (Livenet, address_A)))
           = Callback Null (Some [example_output])"
    by (simp add: Blockcypher_getAddress_request_def Blockcypher_requestGet_def
                  Blockcypher_getAddress_response_def example_process_single Let_def)
  have B: "Blockcypher_getAddress_response example_lib
             (snd (Blockcypher_getAddress_request example_networks example_lib ?h example_blockcypher (Livenet, address_B)))
           = Callback (Value (JStr ''Too Many Requests'')) None"
    by (simp add: Blockcypher_getAddress_request_def Blockcypher_requestGet_def
                  Blockcypher_getAddress_response_def Let_def example_lib_simps
                  address_A_def address_B_def)
  show ?thesis
    by (rule getUnspentUtxos_fail_fast [OF 1, of _ "[0]" 1 "[]"]) (simp_all add: A B)
qed

text \<open>
  C4, at a fetch that fails with an empty body. Two addresses are queried; the first is
  answered with an output, the second with status 500 and an empty body. The response
  handler passes \<^verbatim>\<open>err || body\<close>, here the empty string, to \<^verbatim>\<open>cb\<close>;
  \<^verbatim>\<open>async.map\<close> takes the falsy argument for success and stores \<^verbatim>\<open>undefined\<close>.
  The call succeeds with the first address's output and \<^verbatim>\<open>undefined\<close>.
\<close>

theorem getUnspentUtxos_empty_body_failure_is_lost:
  "fst (Blockcypher_getUnspentUtxos example_networks example_lib only_A_answers [0, 1]
          example_blockcypher (Many [Val (JStr address_A), Val (JStr address_B)]))
     = Callback Null (Some [Item example_output, Undefined])"
  by (simp add: Blockcypher_getUnspentUtxos_def Blockcypher_getAddress_request_def
                Blockcypher_getAddress_response_def Blockcypher_requestGet_def OPTS_def
                example_blockcypher_eq example_process_single flatten_def Let_def
                example_lib_simps address_A_def address_B_def only_A_answers_def all_reported_def)

end
